theory Spec2Isabelle
  imports Complex_Main
begin

section \<open>Data model of the store (supabase/migrations)\<close>

text \<open>
  Identifiers are UUIDs; only their equality matters, so they are strings here.
  A \<open>timestamptz\<close> is a count of microseconds since the epoch. \<open>DOUBLE PRECISION\<close>
  columns and arguments are idealised as real numbers.
\<close>

type_synonym uuid = string
type_synonym timestamptz = int

definition hours :: "int \<Rightarrow> int" where
  "hours n = n * 3600000000"

text \<open>
  A \<open>GEOGRAPHY(POINT, 4326)\<close> value: \<open>ST_X\<close> is the longitude and \<open>ST_Y\<close> the latitude,
  both in degrees. \<open>ST_SetSRID(ST_MakePoint(x, y), 4326)::geography\<close> keeps the two
  coordinates as they are given.
\<close>

record geography =
  ST_X :: real
  ST_Y :: real

definition ST_MakePoint :: "real \<Rightarrow> real \<Rightarrow> geography" where
  "ST_MakePoint x y = \<lparr>ST_X = x, ST_Y = y\<rparr>"

record profile =
  p_user_id :: uuid
  p_phone :: "string option"
  p_name :: string
  p_verified :: bool
  p_fcm_token :: "string option"
  p_location :: "geography option"

record report =
  r_id :: uuid
  r_user_id :: uuid
  r_category :: string
  r_vehicle_no :: string
  r_description :: "string option"
  r_photo_url :: "string option"
  r_lat :: real
  r_lon :: real
  r_location :: geography
  r_radius_m :: int
  r_expiry_at :: timestamptz
  r_status :: string
  r_created_at :: timestamptz
  r_updated_at :: timestamptz

record confirmation =
  c_report_id :: uuid
  c_user_id :: uuid
  c_type :: string
  c_created_at :: timestamptz

text \<open>
  A row of \<open>notification_alerts\<close>. The generated key and the three timestamps of the
  table are read by none of the operations below and are left out.
\<close>

record notification_alert =
  a_report_id :: uuid
  a_recipient_user_id :: uuid
  a_sender_user_id :: uuid
  a_message :: string
  a_alert_type :: string
  a_distance_meters :: int
  a_status :: string

record db =
  profiles :: "profile list"
  reports :: "report list"
  confirmations :: "confirmation list"
  notification_alerts :: "notification_alert list"

text \<open>
  Errors a statement can end with. A statement that ends with an error leaves the store
  as it was, so the store operations return \<open>pg_error + db\<close>.
\<close>

datatype pg_error =
    Input_out_of_range
  | Integer_out_of_range
  | Rls_violation
  | Not_null_violation
  | Check_violation
  | Unique_violation
  | Foreign_key_violation
  | Transient_store_error

section \<open>Range query: \<open>get_users_in_range\<close>\<close>

text \<open>
  The SQL built-ins the query uses. \<open>radians\<close> multiplies by \<open>pi / 180\<close>; \<open>acos\<close> raises
  outside \<open>[-1, 1]\<close>; the cast of a double to \<open>INTEGER\<close> rounds to the nearest integer,
  a tie to the even one, and raises outside the 32-bit range.
\<close>

definition radians :: "real \<Rightarrow> real" where
  "radians x = x * (pi / 180)"

definition dacos :: "real \<Rightarrow> pg_error + real" where
  "dacos x = (if x < - 1 \<or> 1 < x then Inl Input_out_of_range else Inr (arccos x))"

definition rint :: "real \<Rightarrow> int" where
  "rint x =
     (let f = \<lfloor>x\<rfloor>; d = x - of_int f
      in if d < 1 / 2 then f
         else if 1 / 2 < d then f + 1
         else if even f then f else f + 1)"

definition dtoi4 :: "real \<Rightarrow> pg_error + int" where
  "dtoi4 x =
     (let n = rint x
      in if n < - 2147483648 \<or> 2147483647 < n then Inl Integer_out_of_range else Inr n)"

text \<open>The argument of \<open>acos\<close> in the query, and the distance expression around it.\<close>

definition cos_central_angle :: "real \<Rightarrow> real \<Rightarrow> geography \<Rightarrow> real" where
  "cos_central_angle center_lat center_lon loc =
     cos (radians center_lat) * cos (radians (ST_Y loc)) *
       cos (radians (ST_X loc) - radians center_lon) +
     sin (radians center_lat) * sin (radians (ST_Y loc))"

definition distance_expr :: "real \<Rightarrow> real \<Rightarrow> geography \<Rightarrow> pg_error + real" where
  "distance_expr center_lat center_lon loc =
     (case dacos (cos_central_angle center_lat center_lon loc) of
        Inl e \<Rightarrow> Inl e
      | Inr a \<Rightarrow> Inr (6371000 * a))"

record user_in_range =
  user_id :: uuid
  distance_meters :: int
  fcm_token :: "string option"

text \<open>
  One row of \<open>profiles\<close> through the \<open>WHERE\<close> clause and the select list. \<open>auth_uid\<close> is
  \<open>auth.uid()\<close>, \<open>NULL\<close> for a caller who is not signed in; \<open>p.user_id != NULL\<close> is not
  true, so such a caller gets no row.
\<close>

definition range_row ::
  "uuid option \<Rightarrow> real \<Rightarrow> real \<Rightarrow> int \<Rightarrow> profile \<Rightarrow> pg_error + user_in_range option" where
  "range_row auth_uid center_lat center_lon radius_meters p =
     (case p_location p of
        None \<Rightarrow> Inr None
      | Some loc \<Rightarrow>
          (case auth_uid of
             None \<Rightarrow> Inr None
           | Some me \<Rightarrow>
               if p_user_id p = me then Inr None
               else
                 (case distance_expr center_lat center_lon loc of
                    Inl e \<Rightarrow> Inl e
                  | Inr d \<Rightarrow>
                      if d \<le> of_int radius_meters then
                        (case dtoi4 d of
                           Inl e \<Rightarrow> Inl e
                         | Inr n \<Rightarrow>
                             Inr (Some \<lparr>user_id = p_user_id p, distance_meters = n,
                                        fcm_token = p_fcm_token p\<rparr>))
                      else Inr None)))"

fun get_users_in_range ::
  "uuid option \<Rightarrow> real \<Rightarrow> real \<Rightarrow> int \<Rightarrow> profile list \<Rightarrow> pg_error + user_in_range list" where
  "get_users_in_range auth_uid center_lat center_lon radius_meters [] = Inr []"
| "get_users_in_range auth_uid center_lat center_lon radius_meters (p # ps) =
     (case range_row auth_uid center_lat center_lon radius_meters p of
        Inl e \<Rightarrow> Inl e
      | Inr row \<Rightarrow>
          (case get_users_in_range auth_uid center_lat center_lon radius_meters ps of
             Inl e \<Rightarrow> Inl e
           | Inr rows \<Rightarrow> Inr (case row of None \<Rightarrow> rows | Some u \<Rightarrow> u # rows)))"

text \<open>
  The same query read as a filter and a projection: the great-circle distance in metres,
  the \<open>WHERE\<close> clause as a predicate on a row, and the row it yields.
\<close>

definition great_circle_meters :: "real \<Rightarrow> real \<Rightarrow> geography \<Rightarrow> real" where
  "great_circle_meters center_lat center_lon loc =
     6371000 * arccos (cos_central_angle center_lat center_lon loc)"

definition selected :: "uuid option \<Rightarrow> real \<Rightarrow> real \<Rightarrow> int \<Rightarrow> profile \<Rightarrow> bool" where
  "selected auth_uid center_lat center_lon radius_meters p =
     (case p_location p of
        None \<Rightarrow> False
      | Some loc \<Rightarrow>
          (case auth_uid of
             None \<Rightarrow> False
           | Some me \<Rightarrow>
               p_user_id p \<noteq> me \<and>
               great_circle_meters center_lat center_lon loc \<le> of_int radius_meters))"

definition result_row :: "real \<Rightarrow> real \<Rightarrow> profile \<Rightarrow> user_in_range" where
  "result_row center_lat center_lon p =
     \<lparr>user_id = p_user_id p,
      distance_meters =
        (case p_location p of
           None \<Rightarrow> 0
         | Some loc \<Rightarrow> rint (great_circle_meters center_lat center_lon loc)),
      fcm_token = p_fcm_token p\<rparr>"

text \<open>
  \<open>get_users_in_radius\<close> of the first migration. \<open>ST_DWithin\<close> belongs to PostGIS and is a
  parameter.
\<close>

record user_in_radius =
  ur_user_id :: uuid
  ur_phone :: "string option"
  ur_fcm_token :: "string option"

definition get_users_in_radius ::
  "(geography \<Rightarrow> geography \<Rightarrow> int \<Rightarrow> bool) \<Rightarrow> real \<Rightarrow> real \<Rightarrow> int \<Rightarrow> profile list \<Rightarrow>
   user_in_radius list" where
  "get_users_in_radius ST_DWithin report_lat report_lon radius_meters ps =
     map (\<lambda>p. \<lparr>ur_user_id = p_user_id p, ur_phone = p_phone p, ur_fcm_token = p_fcm_token p\<rparr>)
       (filter (\<lambda>p. case p_location p of
                      None \<Rightarrow> False
                    | Some loc \<Rightarrow>
                        p_verified p \<and>
                        ST_DWithin loc (ST_MakePoint report_lon report_lat) radius_meters)
          ps)"

section \<open>Tables \<open>reports\<close>, \<open>confirmations\<close> and \<open>notification_alerts\<close>\<close>

text \<open>
  The object a client passes to \<open>.insert()\<close> on \<open>reports\<close>. A column that is left out
  (\<open>None\<close>) takes its default where it has one and is \<open>NULL\<close> otherwise. No caller sets
  \<open>id\<close>, \<open>created_at\<close> or \<open>updated_at\<close>.
\<close>

record report_insert =
  i_user_id :: "uuid option"
  i_category :: "string option"
  i_vehicle_no :: "string option"
  i_description :: "string option"
  i_photo_url :: "string option"
  i_lat :: "real option"
  i_lon :: "real option"
  i_location :: "geography option"
  i_radius_m :: "int option"
  i_expiry_at :: "timestamptz option"
  i_status :: "string option"

text \<open>
  The trigger function \<open>update_report_location\<close>, run before every insert and update of a
  row: \<open>NEW.location = ST_SetSRID(ST_MakePoint(NEW.lon, NEW.lat), 4326)::geography\<close>.
  It reads the new \<open>lon\<close> and \<open>lat\<close> only; \<open>ST_MakePoint\<close> of a \<open>NULL\<close> is \<open>NULL\<close>.
\<close>

definition update_report_location :: "real option \<Rightarrow> real option \<Rightarrow> geography option" where
  "update_report_location new_lon new_lat =
     (case new_lon of
        None \<Rightarrow> None
      | Some x \<Rightarrow> (case new_lat of None \<Rightarrow> None | Some y \<Rightarrow> Some (ST_MakePoint x y)))"

definition status_check :: "string \<Rightarrow> bool" where
  "status_check st = (st \<in> {''pending'', ''verified'', ''false''})"

definition default_of :: "'a \<Rightarrow> 'a option \<Rightarrow> 'a" where
  "default_of d x = (case x of None \<Rightarrow> d | Some v \<Rightarrow> v)"

text \<open>
  \<open>INSERT INTO reports\<close> of one row by the caller \<open>auth_uid\<close> at time \<open>now\<close>, the generated
  key being \<open>new_id\<close>. In the order of the executor: defaults, the row trigger, the
  policy "Users can create their own reports", the \<open>NOT NULL\<close> constraints, the \<open>CHECK\<close>
  on \<open>status\<close>, the primary key. The reference of \<open>user_id\<close> to \<open>auth.users\<close> needs no
  branch: the policy has made \<open>user_id\<close> the caller, who is a user.
\<close>

definition insert_report ::
  "uuid option \<Rightarrow> timestamptz \<Rightarrow> uuid \<Rightarrow> report_insert \<Rightarrow> db \<Rightarrow> pg_error + (report \<times> db)" where
  "insert_report auth_uid now new_id ins d =
     (let new_location = update_report_location (i_lon ins) (i_lat ins);
          new_status = default_of ''pending'' (i_status ins)
      in if auth_uid = None \<or> auth_uid \<noteq> i_user_id ins then Inl Rls_violation
         else
           (case i_user_id ins of None \<Rightarrow> Inl Not_null_violation | Some u \<Rightarrow>
           (case i_vehicle_no ins of None \<Rightarrow> Inl Not_null_violation | Some v \<Rightarrow>
           (case i_lat ins of None \<Rightarrow> Inl Not_null_violation | Some la \<Rightarrow>
           (case i_lon ins of None \<Rightarrow> Inl Not_null_violation | Some lo \<Rightarrow>
           (case new_location of None \<Rightarrow> Inl Not_null_violation | Some loc \<Rightarrow>
              if \<not> status_check new_status then Inl Check_violation
              else if new_id \<in> set (map r_id (reports d)) then Inl Unique_violation
              else
                (let row = \<lparr>r_id = new_id, r_user_id = u,
                            r_category = default_of ''vehicle'' (i_category ins),
                            r_vehicle_no = v,
                            r_description = i_description ins,
                            r_photo_url = i_photo_url ins,
                            r_lat = la, r_lon = lo, r_location = loc,
                            r_radius_m = default_of 1000 (i_radius_m ins),
                            r_expiry_at = default_of (now + hours 2) (i_expiry_at ins),
                            r_status = new_status,
                            r_created_at = now, r_updated_at = now\<rparr>
                 in Inr (row, d\<lparr>reports := reports d @ [row]\<rparr>))))))))"

text \<open>
  \<open>.insert(...).select().single()\<close> adds \<open>RETURNING\<close>, for which the new row must also
  pass the policy "Users can view all active reports". The policies are checked
  together, before the constraints.
\<close>

definition insert_report_returning ::
  "uuid option \<Rightarrow> timestamptz \<Rightarrow> uuid \<Rightarrow> report_insert \<Rightarrow> db \<Rightarrow> pg_error + (report \<times> db)" where
  "insert_report_returning auth_uid now new_id ins d =
     (if now < default_of (now + hours 2) (i_expiry_at ins)
      then insert_report auth_uid now new_id ins d
      else Inl Rls_violation)"

text \<open>
  \<open>UPDATE reports SET ... WHERE id = rid\<close>. A column that is not assigned is \<open>None\<close>; the
  generated columns are not assignable here.
\<close>

record report_update =
  u_user_id :: "uuid option"
  u_category :: "string option"
  u_vehicle_no :: "string option"
  u_description :: "string option option"
  u_photo_url :: "string option option"
  u_lat :: "real option"
  u_lon :: "real option"
  u_location :: "geography option"
  u_radius_m :: "int option"
  u_expiry_at :: "timestamptz option"
  u_status :: "string option"

definition assign_columns :: "report_update \<Rightarrow> report \<Rightarrow> report" where
  "assign_columns upd r =
     r\<lparr>r_user_id := default_of (r_user_id r) (u_user_id upd),
       r_category := default_of (r_category r) (u_category upd),
       r_vehicle_no := default_of (r_vehicle_no r) (u_vehicle_no upd),
       r_description := default_of (r_description r) (u_description upd),
       r_photo_url := default_of (r_photo_url r) (u_photo_url upd),
       r_lat := default_of (r_lat r) (u_lat upd),
       r_lon := default_of (r_lon r) (u_lon upd),
       r_location := default_of (r_location r) (u_location upd),
       r_radius_m := default_of (r_radius_m r) (u_radius_m upd),
       r_expiry_at := default_of (r_expiry_at r) (u_expiry_at upd),
       r_status := default_of (r_status r) (u_status upd)\<rparr>"

text \<open>
  One row through the update. The row is a target when its key matches and the caller
  may read it ("Users can view all active reports") and update it ("Users can update
  their own reports"); the new row gets the trigger, then the same two policies as its
  check, then the constraints.
\<close>

definition update_row ::
  "uuid option \<Rightarrow> timestamptz \<Rightarrow> uuid \<Rightarrow> report_update \<Rightarrow> report \<Rightarrow> pg_error + report" where
  "update_row auth_uid now rid upd r =
     (if r_id r = rid \<and> now < r_expiry_at r \<and> auth_uid = Some (r_user_id r) then
        (let new = assign_columns upd r
         in case update_report_location (Some (r_lon new)) (Some (r_lat new)) of
              None \<Rightarrow> Inl Not_null_violation
            | Some loc \<Rightarrow>
                if auth_uid \<noteq> Some (r_user_id new) \<or> \<not> now < r_expiry_at new
                then Inl Rls_violation
                else if \<not> status_check (r_status new) then Inl Check_violation
                else Inr (new\<lparr>r_location := loc\<rparr>))
      else Inr r)"

fun update_rows ::
  "uuid option \<Rightarrow> timestamptz \<Rightarrow> uuid \<Rightarrow> report_update \<Rightarrow> report list \<Rightarrow> pg_error + report list" where
  "update_rows auth_uid now rid upd [] = Inr []"
| "update_rows auth_uid now rid upd (r # rs) =
     (case update_row auth_uid now rid upd r of
        Inl e \<Rightarrow> Inl e
      | Inr r' \<Rightarrow>
          (case update_rows auth_uid now rid upd rs of
             Inl e \<Rightarrow> Inl e
           | Inr rs' \<Rightarrow> Inr (r' # rs')))"

definition update_report ::
  "uuid option \<Rightarrow> timestamptz \<Rightarrow> uuid \<Rightarrow> report_update \<Rightarrow> db \<Rightarrow> pg_error + db" where
  "update_report auth_uid now rid upd d =
     (case update_rows auth_uid now rid upd (reports d) of
        Inl e \<Rightarrow> Inl e
      | Inr rs \<Rightarrow> Inr (d\<lparr>reports := rs\<rparr>))"

text \<open>
  \<open>SELECT\<close> on \<open>reports\<close> under the policy "Users can view all active reports":
  \<open>USING (expiry_at > now())\<close>.
\<close>

definition select_reports :: "timestamptz \<Rightarrow> db \<Rightarrow> report list" where
  "select_reports now d = filter (\<lambda>r. now < r_expiry_at r) (reports d)"

text \<open>
  \<open>INSERT INTO confirmations\<close>: the policy "Users can create confirmations", the \<open>CHECK\<close>
  on \<open>type\<close>, \<open>UNIQUE(report_id, user_id)\<close>, then the reference to \<open>reports\<close>.
\<close>

record confirmation_insert =
  ci_report_id :: uuid
  ci_user_id :: uuid
  ci_type :: string

definition type_check :: "string \<Rightarrow> bool" where
  "type_check t = (t \<in> {''seen'', ''false'', ''call_police''})"

definition confirmation_key :: "confirmation \<Rightarrow> uuid \<times> uuid" where
  "confirmation_key c = (c_report_id c, c_user_id c)"

definition insert_confirmation ::
  "uuid option \<Rightarrow> timestamptz \<Rightarrow> confirmation_insert \<Rightarrow> db \<Rightarrow> pg_error + db" where
  "insert_confirmation auth_uid now ins d =
     (if auth_uid \<noteq> Some (ci_user_id ins) then Inl Rls_violation
      else if \<not> type_check (ci_type ins) then Inl Check_violation
      else if (ci_report_id ins, ci_user_id ins) \<in> set (map confirmation_key (confirmations d))
        then Inl Unique_violation
      else if ci_report_id ins \<notin> set (map r_id (reports d)) then Inl Foreign_key_violation
      else Inr (d\<lparr>confirmations := confirmations d @
                  [\<lparr>c_report_id = ci_report_id ins, c_user_id = ci_user_id ins,
                    c_type = ci_type ins, c_created_at = now\<rparr>]\<rparr>))"

text \<open>
  The objects of a batch \<open>.insert(alerts)\<close> on \<open>notification_alerts\<close>. The sender is
  \<open>user?.id\<close>, which is missing when there is no user. The statement inserts all rows or
  none: the policy "Users can create alerts for their reports" and the \<open>NOT NULL\<close> on the
  sender are checked row by row.
\<close>

record alert_insert =
  ai_report_id :: uuid
  ai_recipient_user_id :: uuid
  ai_sender_user_id :: "uuid option"
  ai_message :: string
  ai_distance_meters :: int

definition alert_row :: "uuid \<Rightarrow> alert_insert \<Rightarrow> notification_alert" where
  "alert_row sender ins =
     \<lparr>a_report_id = ai_report_id ins, a_recipient_user_id = ai_recipient_user_id ins,
      a_sender_user_id = sender, a_message = ai_message ins,
      a_alert_type = ''theft_alert'', a_distance_meters = ai_distance_meters ins,
      a_status = ''sent''\<rparr>"

fun alert_rows :: "uuid option \<Rightarrow> alert_insert list \<Rightarrow> pg_error + notification_alert list" where
  "alert_rows auth_uid [] = Inr []"
| "alert_rows auth_uid (ins # rest) =
     (if auth_uid = None \<or> auth_uid \<noteq> ai_sender_user_id ins then Inl Rls_violation
      else
        (case ai_sender_user_id ins of
           None \<Rightarrow> Inl Not_null_violation
         | Some s \<Rightarrow>
             (case alert_rows auth_uid rest of
                Inl e \<Rightarrow> Inl e
              | Inr rows \<Rightarrow> Inr (alert_row s ins # rows))))"

definition insert_notification_alerts :: "uuid option \<Rightarrow> alert_insert list \<Rightarrow> db \<Rightarrow> pg_error + db" where
  "insert_notification_alerts auth_uid alerts d =
     (case alert_rows auth_uid alerts of
        Inl e \<Rightarrow> Inl e
      | Inr rows \<Rightarrow> Inr (d\<lparr>notification_alerts := notification_alerts d @ rows\<rparr>))"

section \<open>Client: the theft report dialog (\<open>sendAlertsToUsers\<close>, \<open>handleSubmit\<close>)\<close>

text \<open>
  The browser's position (\<open>useLocation\<close>): each coordinate is a number or \<open>null\<close>.
  \<open>falsy\<close> is JavaScript's \<open>!x\<close> on such a value: true of \<open>null\<close> and of \<open>0\<close>.
\<close>

record geolocation =
  latitude :: "real option"
  longitude :: "real option"

definition falsy :: "real option \<Rightarrow> bool" where
  "falsy x = (case x of None \<Rightarrow> True | Some v \<Rightarrow> v = 0)"

text \<open>The text \<open>POINT(${longitude} ${latitude})\<close> a client sends for the \<open>location\<close> column.\<close>

definition client_point :: "geolocation \<Rightarrow> geography option" where
  "client_point location =
     (case longitude location of
        None \<Rightarrow> None
      | Some x \<Rightarrow> (case latitude location of None \<Rightarrow> None | Some y \<Rightarrow> Some (ST_MakePoint x y)))"

record form_data =
  vehicleNo :: string
  description :: string
  message :: string

text \<open>
  Calls to the store can fail for reasons the definitions above do not show: the network,
  an outage, and for the range query also \<open>acos\<close> raising on an argument that double
  arithmetic has rounded above 1. Each flag makes the call it names return an error.
\<close>

record faults =
  report_insert_fails :: bool
  range_query_fails :: bool
  alert_insert_fails :: bool

datatype submit_result =
    Validation_failed
  | Returned_early
  | Submit_failed pg_error
  | Report_saved
  | Report_saved_alerts "nat option"

text \<open>The default alert text; it starts with the four UTF-8 bytes of the siren sign.\<close>

definition default_message :: "string \<Rightarrow> string" where
  "default_message vehicle_no =
     [CHR 0xF0, CHR 0x9F, CHR 0x9A, CHR 0xA8] @ '' THEFT ALERT: '' @ vehicle_no @
     '' stolen near your location. Check the live map for details.''"

text \<open>\<open>formData.message || default\<close>: the empty string is falsy.\<close>

definition alert_message :: "form_data \<Rightarrow> string" where
  "alert_message formData =
     (if message formData = [] then default_message (vehicleNo formData) else message formData)"

definition rpc_get_users_in_range ::
  "faults \<Rightarrow> uuid option \<Rightarrow> real \<Rightarrow> real \<Rightarrow> int \<Rightarrow> db \<Rightarrow> pg_error + user_in_range list" where
  "rpc_get_users_in_range fl auth_uid center_lat center_lon radius_meters d =
     (if range_query_fails fl then Inl Transient_store_error
      else get_users_in_range auth_uid center_lat center_lon radius_meters (profiles d))"

definition make_alerts ::
  "uuid option \<Rightarrow> form_data \<Rightarrow> uuid \<Rightarrow> user_in_range list \<Rightarrow> alert_insert list" where
  "make_alerts user formData reportId usersInRange =
     map (\<lambda>userInRange.
            \<lparr>ai_report_id = reportId,
             ai_recipient_user_id = user_id userInRange,
             ai_sender_user_id = user,
             ai_message = alert_message formData,
             ai_distance_meters = distance_meters userInRange\<rparr>)
       usersInRange"

text \<open>
  The rows a fan-out adds for the signed-in user \<open>me\<close>, given the faults and what the
  range query answered: none after a fault or a failed query, else one per returned user.
\<close>

definition delivered ::
  "uuid \<Rightarrow> form_data \<Rightarrow> uuid \<Rightarrow> faults \<Rightarrow> pg_error + user_in_range list \<Rightarrow>
   notification_alert list" where
  "delivered me formData reportId fl answer =
     (if range_query_fails fl \<or> alert_insert_fails fl then []
      else
        (case answer of
           Inl e \<Rightarrow> []
         | Inr usersInRange \<Rightarrow>
             map (alert_row me) (make_alerts (Some me) formData reportId usersInRange)))"

text \<open>
  \<open>sendAlertsToUsers\<close> returns the number of alerts, \<open>0\<close> when anything was thrown, and
  nothing (\<open>None\<close>) when it returns at its first line.
\<close>

definition sendAlertsToUsers ::
  "uuid option \<Rightarrow> uuid option \<Rightarrow> geolocation \<Rightarrow> form_data \<Rightarrow> int \<Rightarrow> faults \<Rightarrow> uuid \<Rightarrow> db \<Rightarrow>
   nat option \<times> db" where
  "sendAlertsToUsers user auth_uid location formData alertRadius fl reportId d =
     (if falsy (latitude location) \<or> falsy (longitude location) then (None, d)
      else
        (case latitude location of None \<Rightarrow> (None, d) | Some lat \<Rightarrow>
        (case longitude location of None \<Rightarrow> (None, d) | Some lon \<Rightarrow>
        (case rpc_get_users_in_range fl auth_uid lat lon alertRadius d of
           Inl e \<Rightarrow> (Some 0, d)
         | Inr usersInRange \<Rightarrow>
             (let alerts = make_alerts user formData reportId usersInRange
              in if 0 < length alerts then
                   (if alert_insert_fails fl then (Some 0, d)
                    else
                      (case insert_notification_alerts auth_uid alerts d of
                         Inl e \<Rightarrow> (Some 0, d)
                       | Inr d' \<Rightarrow> (Some (length alerts), d')))
                 else (Some (length alerts), d))))))"

text \<open>
  \<open>handleSubmit\<close>. \<open>photoUrl\<close> is what the optional upload gave; \<open>now\<close> is the store's
  clock at the insert and \<open>new_id\<close> the key it generates.
\<close>

definition handleSubmit ::
  "uuid option \<Rightarrow> uuid option \<Rightarrow> geolocation \<Rightarrow> form_data \<Rightarrow> int \<Rightarrow> string option \<Rightarrow>
   timestamptz \<Rightarrow> uuid \<Rightarrow> faults \<Rightarrow> db \<Rightarrow> submit_result \<times> db" where
  "handleSubmit user auth_uid location formData alertRadius photoUrl now new_id fl d =
     (if user = None \<or> falsy (latitude location) \<or> falsy (longitude location)
      then (Returned_early, d)
      else if report_insert_fails fl then (Submit_failed Transient_store_error, d)
      else
        (case insert_report_returning auth_uid now new_id
                \<lparr>i_user_id = user,
                 i_category = Some ''vehicle'',
                 i_vehicle_no = Some (vehicleNo formData),
                 i_description = Some (description formData),
                 i_photo_url = photoUrl,
                 i_lat = latitude location,
                 i_lon = longitude location,
                 i_location = client_point location,
                 i_radius_m = Some alertRadius,
                 i_expiry_at = None,
                 i_status = None\<rparr> d of
           Inl e \<Rightarrow> (Submit_failed e, d)
         | Inr (rep, d1) \<Rightarrow>
             (case sendAlertsToUsers user auth_uid location formData alertRadius fl
                     (r_id rep) d1 of
                (alertsSent, d2) \<Rightarrow> (Report_saved_alerts alertsSent, d2))))"

section \<open>Client: the theft report form (\<open>reportSchema\<close>, \<open>onSubmit\<close>)\<close>

text \<open>
  The values of the form. The slider and the select deliver whole numbers, so the two
  numeric fields are integers.
\<close>

record report_form_data =
  f_vehicleNo :: string
  f_description :: string
  f_radius :: int
  f_expiryHours :: int

text \<open>
  \<open>z.string().min(n)\<close> compares JavaScript's \<open>.length\<close>, the number of UTF-16 code units.
  Strings here are the UTF-8 bytes the store keeps: a byte below \<open>0x80\<close> and the lead
  byte of a sequence of two or three bytes stand for one unit, the lead byte of a
  sequence of four bytes for the two units of a surrogate pair, a continuation byte
  (\<open>0x80\<close> to \<open>0xBF\<close>) for none.
\<close>

fun utf16_length :: "string \<Rightarrow> nat" where
  "utf16_length [] = 0"
| "utf16_length (c # cs) =
     (if (of_char c :: nat) < 128 then 1
      else if (of_char c :: nat) < 192 then 0
      else if (of_char c :: nat) < 240 then 1
      else 2) + utf16_length cs"

definition reportSchema :: "report_form_data \<Rightarrow> bool" where
  "reportSchema data =
     (1 \<le> utf16_length (f_vehicleNo data) \<and>
      10 \<le> utf16_length (f_description data) \<and>
      500 \<le> f_radius data \<and> f_radius data \<le> 5000 \<and>
      1 \<le> f_expiryHours data \<and> f_expiryHours data \<le> 24)"

text \<open>
  \<open>onSubmit\<close> of the form; \<open>client_now\<close> is \<open>Date.now()\<close>. The client sends a point of its
  own for the \<open>location\<close> column.
\<close>

definition onSubmit ::
  "uuid option \<Rightarrow> uuid option \<Rightarrow> geolocation \<Rightarrow> string option \<Rightarrow> timestamptz \<Rightarrow>
   timestamptz \<Rightarrow> uuid \<Rightarrow> faults \<Rightarrow> report_form_data \<Rightarrow> db \<Rightarrow> submit_result \<times> db" where
  "onSubmit user auth_uid location photoUrl client_now now new_id fl data d =
     (if user = None \<or> falsy (latitude location) \<or> falsy (longitude location)
      then (Returned_early, d)
      else if report_insert_fails fl then (Submit_failed Transient_store_error, d)
      else
        (case insert_report auth_uid now new_id
                \<lparr>i_user_id = user,
                 i_category = None,
                 i_vehicle_no = Some (f_vehicleNo data),
                 i_description = Some (f_description data),
                 i_photo_url = photoUrl,
                 i_lat = latitude location,
                 i_lon = longitude location,
                 i_location = client_point location,
                 i_radius_m = Some (f_radius data),
                 i_expiry_at = Some (client_now + hours (f_expiryHours data)),
                 i_status = None\<rparr> d of
           Inl e \<Rightarrow> (Submit_failed e, d)
         | Inr (rep, d') \<Rightarrow> (Report_saved, d')))"

text \<open>
  \<open>form.handleSubmit(onSubmit)\<close>: the resolver validates against \<open>reportSchema\<close> and
  \<open>onSubmit\<close> runs only on valid data.
\<close>

definition form_handleSubmit ::
  "uuid option \<Rightarrow> uuid option \<Rightarrow> geolocation \<Rightarrow> string option \<Rightarrow> timestamptz \<Rightarrow>
   timestamptz \<Rightarrow> uuid \<Rightarrow> faults \<Rightarrow> report_form_data \<Rightarrow> db \<Rightarrow> submit_result \<times> db" where
  "form_handleSubmit user auth_uid location photoUrl client_now now new_id fl data d =
     (if reportSchema data
      then onSubmit user auth_uid location photoUrl client_now now new_id fl data d
      else (Validation_failed, d))"

section \<open>Client: the stolen vehicle form\<close>

record stolen_form_data =
  vehicleNumber :: string
  vehicleColor :: string
  vehicleType :: string
  theftTime :: string
  additionalDetails :: "string option"
  uniqueMarks :: "string option"
  location_manual :: "string option"

fun string_of_nat :: "nat \<Rightarrow> string" where
  "string_of_nat n =
     (if n < 10 then [char_of (48 + n)]
      else string_of_nat (n div 10) @ [char_of (48 + n mod 10)])"

text \<open>\<open>x || 'None'\<close> on an optional string.\<close>

definition or_None :: "string option \<Rightarrow> string" where
  "or_None x = (case x of None \<Rightarrow> ''None'' | Some s \<Rightarrow> if s = [] then ''None'' else s)"

definition stolen_description :: "stolen_form_data \<Rightarrow> nat \<Rightarrow> string" where
  "stolen_description data n =
     vehicleColor data @ '' '' @ vehicleType data @ ''. Theft time: '' @ theftTime data @
     ''. Additional details: '' @ or_None (additionalDetails data) @
     ''. Unique marks: '' @ or_None (uniqueMarks data) @
     ''. Evidence: '' @ string_of_nat n @ '' files uploaded.''"

text \<open>
  \<open>onSubmit\<close> of the stolen vehicle form. \<open>evidenceUrls\<close> are the uploads that succeeded;
  the row asks for \<open>status: 'active'\<close>.
\<close>

definition stolen_onSubmit ::
  "uuid option \<Rightarrow> uuid option \<Rightarrow> geolocation \<Rightarrow> bool \<Rightarrow> string list \<Rightarrow> timestamptz \<Rightarrow>
   timestamptz \<Rightarrow> uuid \<Rightarrow> faults \<Rightarrow> stolen_form_data \<Rightarrow> db \<Rightarrow> submit_result \<times> db" where
  "stolen_onSubmit user auth_uid location useManualLocation evidenceUrls client_now now new_id
     fl data d =
     (if user = None then (Returned_early, d)
      else if \<not> useManualLocation \<and> (falsy (latitude location) \<or> falsy (longitude location))
        then (Returned_early, d)
      else if report_insert_fails fl then (Submit_failed Transient_store_error, d)
      else
        (case insert_report auth_uid now new_id
                \<lparr>i_user_id = user,
                 i_category = Some ''vehicle'',
                 i_vehicle_no = Some (vehicleNumber data),
                 i_description = Some (stolen_description data (length evidenceUrls)),
                 i_photo_url =
                   (case evidenceUrls of
                      [] \<Rightarrow> None
                    | url # _ \<Rightarrow> if url = [] then None else Some url),
                 i_lat = (if useManualLocation then Some 0 else latitude location),
                 i_lon = (if useManualLocation then Some 0 else longitude location),
                 i_location =
                   (if useManualLocation then Some (ST_MakePoint 0 0)
                    else client_point location),
                 i_radius_m = Some 5000,
                 i_expiry_at = Some (client_now + hours (7 * 24)),
                 i_status = Some ''active''\<rparr> d of
           Inl e \<Rightarrow> (Submit_failed e, d)
         | Inr (rep, d') \<Rightarrow> (Report_saved, d')))"

section \<open>Client: the listings of reports\<close>

text \<open>
  \<open>.order('created_at', { ascending: false })\<close>, then the queries of the live map
  (\<open>loadReports\<close> with the category filter), of the index page (\<open>loadReports\<close>) and of
  the user's own reports (\<open>loadUserReports\<close>). \<open>client_now\<close> is \<open>new Date()\<close> in the
  browser, \<open>now\<close> the store's clock when the policy is evaluated.
\<close>

definition order_created_at_desc :: "report list \<Rightarrow> report list" where
  "order_created_at_desc rs = rev (sort_key r_created_at rs)"

definition loadReports_live :: "timestamptz \<Rightarrow> timestamptz \<Rightarrow> db \<Rightarrow> report list" where
  "loadReports_live client_now now d =
     order_created_at_desc
       (filter (\<lambda>r. r_category r = ''vehicle'' \<and> client_now \<le> r_expiry_at r)
          (select_reports now d))"

definition loadReports_index :: "timestamptz \<Rightarrow> timestamptz \<Rightarrow> db \<Rightarrow> report list" where
  "loadReports_index client_now now d =
     order_created_at_desc
       (filter (\<lambda>r. client_now \<le> r_expiry_at r) (select_reports now d))"

definition loadUserReports :: "uuid option \<Rightarrow> timestamptz \<Rightarrow> db \<Rightarrow> report list option" where
  "loadUserReports user now d =
     (case user of
        None \<Rightarrow> None
      | Some u \<Rightarrow>
          Some (order_created_at_desc (filter (\<lambda>r. r_user_id r = u) (select_reports now d))))"

section \<open>Invariants of the store\<close>

text \<open>
  \<open>profiles.user_id\<close> is \<open>UNIQUE\<close>; \<open>reports.id\<close> is the primary key; a confirmation is
  unique in \<open>(report_id, user_id)\<close>. The remaining predicates are the properties proved
  below; the store declares no constraint for them.
\<close>

definition profiles_unique :: "db \<Rightarrow> bool" where
  "profiles_unique d = distinct (map p_user_id (profiles d))"

definition confirmations_unique :: "db \<Rightarrow> bool" where
  "confirmations_unique d = distinct (map confirmation_key (confirmations d))"

definition alert_key :: "notification_alert \<Rightarrow> uuid \<times> uuid" where
  "alert_key a = (a_report_id a, a_recipient_user_id a)"

definition alerts_unique :: "db \<Rightarrow> bool" where
  "alerts_unique d = distinct (map alert_key (notification_alerts d))"

definition alerts_reference_reports :: "db \<Rightarrow> bool" where
  "alerts_reference_reports d =
     list_all (\<lambda>a. a_report_id a \<in> set (map r_id (reports d))) (notification_alerts d)"

definition location_derived :: "report \<Rightarrow> bool" where
  "location_derived r = (r_location r = ST_MakePoint (r_lon r) (r_lat r))"

definition locations_derived :: "db \<Rightarrow> bool" where
  "locations_derived d = list_all location_derived (reports d)"

definition statuses_checked :: "db \<Rightarrow> bool" where
  "statuses_checked d = list_all (\<lambda>r. status_check (r_status r)) (reports d)"

section \<open>Example values\<close>

text \<open>
  A small store and some requests, used where a statement is checked on a concrete case:
  an empty store, a report at latitude 12.9 and longitude 77.6 whose client sent the
  point (0, 0), the store after its insert, and an update of the latitude.
\<close>

definition db0 :: db where
  "db0 = \<lparr>profiles = [], reports = [], confirmations = [], notification_alerts = []\<rparr>"

definition ins0 :: report_insert where
  "ins0 = \<lparr>i_user_id = Some ''user-a'', i_category = None, i_vehicle_no = Some ''KA01AB1234'',
           i_description = None, i_photo_url = None,
           i_lat = Some (129 / 10), i_lon = Some (776 / 10),
           i_location = Some (ST_MakePoint 0 0), i_radius_m = None,
           i_expiry_at = None, i_status = None\<rparr>"

definition rep0 :: report where
  "rep0 = \<lparr>r_id = ''report-1'', r_user_id = ''user-a'', r_category = ''vehicle'',
           r_vehicle_no = ''KA01AB1234'', r_description = None, r_photo_url = None,
           r_lat = 129 / 10, r_lon = 776 / 10, r_location = ST_MakePoint (776 / 10) (129 / 10),
           r_radius_m = 1000, r_expiry_at = hours 2, r_status = ''pending'',
           r_created_at = 0, r_updated_at = 0\<rparr>"

definition db1 :: db where
  "db1 = db0\<lparr>reports := [rep0]\<rparr>"

definition upd0 :: report_update where
  "upd0 = \<lparr>u_user_id = None, u_category = None, u_vehicle_no = None, u_description = None,
           u_photo_url = None, u_lat = Some 13, u_lon = None,
           u_location = Some (ST_MakePoint 1 1), u_radius_m = None, u_expiry_at = None,
           u_status = None\<rparr>"

definition stolen0 :: stolen_form_data where
  "stolen0 = \<lparr>vehicleNumber = ''MH12AB1234'', vehicleColor = ''red'', vehicleType = ''car'',
              theftTime = ''2025-09-02T10:00'', additionalDetails = None, uniqueMarks = Some [],
              location_manual = None\<rparr>"

definition no_faults :: faults where
  "no_faults = \<lparr>report_insert_fails = False, range_query_fails = False,
                alert_insert_fails = False\<rparr>"

definition form0 :: report_form_data where
  "form0 = \<lparr>f_vehicleNo = ''KA01AB1234'', f_description = ''stolen near the market'',
            f_radius = 1000, f_expiryHours = 2\<rparr>"

definition here0 :: geolocation where
  "here0 = \<lparr>latitude = Some (129 / 10), longitude = Some (776 / 10)\<rparr>"

definition seen0 :: confirmation_insert where
  "seen0 = \<lparr>ci_report_id = ''report-1'', ci_user_id = ''user-b'', ci_type = ''seen''\<rparr>"

text \<open>
  Three profiles: the reporter and a neighbour at the reporter's position, and a user with
  no stored location; the reporter's position and dialog; the store after the reporter's
  submission.
\<close>

definition profile_a :: profile where
  "profile_a = \<lparr>p_user_id = ''user-a'', p_phone = None, p_name = ''A'', p_verified = True,
                p_fcm_token = None,
                p_location = Some (ST_MakePoint (776 / 10) (129 / 10))\<rparr>"

definition profile_b :: profile where
  "profile_b = \<lparr>p_user_id = ''user-b'', p_phone = None, p_name = ''B'', p_verified = True,
                p_fcm_token = Some ''token-b'',
                p_location = Some (ST_MakePoint (776 / 10) (129 / 10))\<rparr>"

definition profile_c :: profile where
  "profile_c = \<lparr>p_user_id = ''user-c'', p_phone = None, p_name = ''C'', p_verified = True,
                p_fcm_token = None, p_location = None\<rparr>"

definition db2 :: db where
  "db2 = db0\<lparr>profiles := [profile_a, profile_b, profile_c]\<rparr>"

definition fd0 :: form_data where
  "fd0 = \<lparr>vehicleNo = ''KA01AB1234'', description = ''red scooter'', message = []\<rparr>"

definition rep1 :: report where
  "rep1 = \<lparr>r_id = ''report-1'', r_user_id = ''user-a'', r_category = ''vehicle'',
           r_vehicle_no = ''KA01AB1234'', r_description = Some ''red scooter'',
           r_photo_url = None, r_lat = 129 / 10, r_lon = 776 / 10,
           r_location = ST_MakePoint (776 / 10) (129 / 10), r_radius_m = 1000,
           r_expiry_at = hours 2, r_status = ''pending'', r_created_at = 0, r_updated_at = 0\<rparr>"

definition alert_b :: notification_alert where
  "alert_b = \<lparr>a_report_id = ''report-1'', a_recipient_user_id = ''user-b'',
              a_sender_user_id = ''user-a'',
              a_message =
                [CHR 0xF0, CHR 0x9F, CHR 0x9A, CHR 0xA8] @
                '' THEFT ALERT: KA01AB1234 stolen near your location. Check the live map for details.'',
              a_alert_type = ''theft_alert'', a_distance_meters = 0, a_status = ''sent''\<rparr>"

definition db3 :: db where
  "db3 = db2\<lparr>reports := [rep1], notification_alerts := [alert_b]\<rparr>"

text \<open>A row with the radius 10 and no vehicle number, as the dialog would send it.\<close>

definition ins_unchecked :: report_insert where
  "ins_unchecked = \<lparr>i_user_id = Some ''user-a'', i_category = Some ''vehicle'',
                    i_vehicle_no = Some [], i_description = Some [], i_photo_url = None,
                    i_lat = Some (129 / 10), i_lon = Some (776 / 10),
                    i_location = Some (ST_MakePoint (776 / 10) (129 / 10)),
                    i_radius_m = Some 10, i_expiry_at = None, i_status = None\<rparr>"

definition rep_unchecked :: report where
  "rep_unchecked = \<lparr>r_id = ''report-1'', r_user_id = ''user-a'', r_category = ''vehicle'',
                    r_vehicle_no = [], r_description = Some [], r_photo_url = None,
                    r_lat = 129 / 10, r_lon = 776 / 10,
                    r_location = ST_MakePoint (776 / 10) (129 / 10), r_radius_m = 10,
                    r_expiry_at = hours 2, r_status = ''pending'', r_created_at = 0,
                    r_updated_at = 0\<rparr>"

section \<open>Bounds on \<open>pi\<close>\<close>

text \<open>
  The partial sums of the alternating series of \<open>arctan\<close> enclose its value; with Machin's
  formula they enclose \<open>pi\<close> closely enough to place a distance between two integers.
\<close>

lemma arctan_partial_sums:
  fixes x :: real
  assumes x0: "0 \<le> x" and x1: "x < 1"
  shows "(\<Sum>k<2 * n. (- 1) ^ k * (1 / real (k * 2 + 1) * x ^ (k * 2 + 1))) \<le> arctan x"
    and "arctan x \<le> (\<Sum>k<2 * n + 1. (- 1) ^ k * (1 / real (k * 2 + 1) * x ^ (k * 2 + 1)))"
proof -
  define a where "a k = 1 / real (k * 2 + 1) * x ^ (k * 2 + 1)" for k
  have a_nonneg: "0 \<le> a k" for k
    using x0 by (simp add: a_def)
  have a_mono: "a (Suc k) \<le> a k" for k
  proof -
    have "x ^ (Suc k * 2 + 1) \<le> x ^ (k * 2 + 1)"
      using x0 x1 by (intro power_decreasing) auto
    moreover have "1 / real (Suc k * 2 + 1) \<le> 1 / real (k * 2 + 1)"
      by (simp add: field_simps)
    ultimately show ?thesis
      unfolding a_def using x0 by (intro mult_mono) auto
  qed
  have a_bound: "a k \<le> inverse (real (Suc k))" for k
  proof -
    have "x ^ (k * 2 + 1) \<le> 1" using x0 x1 by (intro power_le_one) auto
    then have "a k \<le> 1 / real (k * 2 + 1) * 1"
      unfolding a_def by (intro mult_left_mono) auto
    also have "\<dots> \<le> inverse (real (Suc k))"
      by (simp add: field_simps)
    finally show ?thesis .
  qed
  have a_lim: "a \<longlonglongrightarrow> 0"
  proof (rule tendsto_sandwich [where f = "\<lambda>_. 0" and h = "\<lambda>k. inverse (real (Suc k))"])
    show "\<forall>\<^sub>F k in sequentially. 0 \<le> a k" using a_nonneg by simp
    show "\<forall>\<^sub>F k in sequentially. a k \<le> inverse (real (Suc k))" using a_bound by simp
    show "(\<lambda>_. 0::real) \<longlonglongrightarrow> 0" by simp
    show "(\<lambda>k. inverse (real (Suc k))) \<longlonglongrightarrow> 0"
      by (rule LIMSEQ_inverse_real_of_nat)
  qed
  have ser: "arctan x = (\<Sum>k. (- 1) ^ k * a k)"
    using arctan_series [of x] x0 x1 by (simp add: a_def)
  from summable_Leibniz'(2) [OF a_lim a_nonneg a_mono, of n]
  show "(\<Sum>k<2 * n. (- 1) ^ k * (1 / real (k * 2 + 1) * x ^ (k * 2 + 1))) \<le> arctan x"
    by (simp add: ser a_def)
  from summable_Leibniz'(4) [OF a_lim a_nonneg a_mono, of n]
  show "arctan x \<le> (\<Sum>k<2 * n + 1. (- 1) ^ k * (1 / real (k * 2 + 1) * x ^ (k * 2 + 1)))"
    by (simp add: ser a_def)
qed

lemma pi_lower: "3.1415 < pi"
proof -
  have l5: "(\<Sum>k<2 * 2. (- 1) ^ k * (1 / real (k * 2 + 1) * (1/5) ^ (k * 2 + 1))) \<le> arctan (1/5)"
    by (rule arctan_partial_sums(1)) simp_all
  have u239: "arctan (1/239) \<le> (\<Sum>k<2 * 0 + 1. (- 1) ^ k * (1 / real (k * 2 + 1) * (1/239) ^ (k * 2 + 1)))"
    by (rule arctan_partial_sums(2)) simp_all
  have "pi = 16 * arctan (1/5) - 4 * arctan (1/239)"
    using machin by simp
  with l5 u239 show ?thesis
    by (simp add: eval_nat_numeral)
qed

lemma pi_upper: "pi < 3.1417"
proof -
  have u5: "arctan (1/5) \<le> (\<Sum>k<2 * 1 + 1. (- 1) ^ k * (1 / real (k * 2 + 1) * (1/5) ^ (k * 2 + 1)))"
    by (rule arctan_partial_sums(2)) simp_all
  have l239: "(\<Sum>k<2 * 1. (- 1) ^ k * (1 / real (k * 2 + 1) * (1/239) ^ (k * 2 + 1))) \<le> arctan (1/239)"
    by (rule arctan_partial_sums(1)) simp_all
  have "pi = 16 * arctan (1/5) - 4 * arctan (1/239)"
    using machin by simp
  with u5 l239 show ?thesis
    by (simp add: eval_nat_numeral)
qed


section \<open>The range query over the reals\<close>

text \<open>
  Over the real numbers the argument of \<open>acos\<close> is the cosine of an angle between two
  points of the sphere, so it lies in \<open>[-1, 1]\<close> and \<open>acos\<close> does not raise; the distance
  is below the 32-bit bound, so the cast does not raise either, and the query is the
  filter \<open>selected\<close> followed by the projection \<open>result_row\<close>. Double arithmetic can
  round the argument above 1, for a profile at the centre itself, and \<open>acos\<close> then raises.
  The lemmas of this section are used to compute the query at given points only; the
  statements on what the query returns and on the fan-out are proved from the shape of
  the query and hold of whatever it answers, rows or an error.
\<close>

lemma cos_central_angle_bounds:
  "- 1 \<le> cos_central_angle a b loc \<and> cos_central_angle a b loc \<le> 1"
proof -
  define x where "x = cos (radians a) * cos (radians (ST_Y loc))"
  define y where "y = sin (radians a) * sin (radians (ST_Y loc))"
  define t where "t = cos (radians (ST_X loc) - radians b)"
  have sum: "x + y = cos (radians a - radians (ST_Y loc))"
    by (simp add: x_def y_def cos_diff)
  have dif: "x - y = cos (radians a + radians (ST_Y loc))"
    by (simp add: x_def y_def cos_add)
  have s1: "- 1 \<le> x + y" "x + y \<le> 1" unfolding sum by simp_all
  have d1: "- 1 \<le> x - y" "x - y \<le> 1" unfolding dif by simp_all
  have t1: "\<bar>t\<bar> \<le> 1" unfolding t_def by (simp add: abs_le_iff)
  have "\<bar>x * t\<bar> \<le> \<bar>x\<bar>"
    using t1 by (simp add: abs_mult mult_left_le)
  then have "- 1 \<le> x * t + y \<and> x * t + y \<le> 1"
    using s1 d1 by (auto simp: abs_le_iff abs_if split: if_splits)
  then show ?thesis
    by (simp add: cos_central_angle_def x_def y_def t_def)
qed

lemma distance_expr_eq:
  "distance_expr a b loc = Inr (great_circle_meters a b loc)"
  using cos_central_angle_bounds [of a b loc]
  by (simp add: distance_expr_def dacos_def great_circle_meters_def not_less)

lemma great_circle_meters_bounds:
  "0 \<le> great_circle_meters a b loc \<and> great_circle_meters a b loc < 20015771"
proof -
  have "0 \<le> arccos (cos_central_angle a b loc) \<and> arccos (cos_central_angle a b loc) \<le> pi"
    using cos_central_angle_bounds [of a b loc] by (simp add: arccos_bounded)
  then show ?thesis
    using pi_upper by (simp add: great_circle_meters_def)
qed

lemma rint_bounds: "of_int (rint x) \<le> x + 1 / 2 \<and> x - 1 / 2 \<le> of_int (rint x)"
  unfolding rint_def Let_def by (auto; linarith)

lemma dtoi4_great_circle:
  "dtoi4 (great_circle_meters a b loc) = Inr (rint (great_circle_meters a b loc))"
proof -
  let ?d = "great_circle_meters a b loc"
  from great_circle_meters_bounds [of a b loc] rint_bounds [of ?d]
  have "- 1 < real_of_int (rint ?d)" "real_of_int (rint ?d) < 20015772" by linarith+
  then have "- 1 < rint ?d" "rint ?d < 20015772" by linarith+
  then show ?thesis by (simp add: dtoi4_def Let_def)
qed

lemma range_row_eq:
  "range_row auth_uid a b r p =
     Inr (if selected auth_uid a b r p then Some (result_row a b p) else None)"
  by (simp add: range_row_def selected_def result_row_def distance_expr_eq dtoi4_great_circle
      split: option.splits)

lemma get_users_in_range_eq:
  "get_users_in_range auth_uid a b r ps =
     Inr (map (result_row a b) (filter (selected auth_uid a b r) ps))"
  by (induction ps) (simp_all add: range_row_eq)

section \<open>C1: a user 0.009 degrees east of the centre on the equator\<close>

lemma equator_distance:
  "great_circle_meters 0 0 \<lparr>ST_X = 9 / 1000, ST_Y = 0\<rparr> = 31855 / 100 * pi"
proof -
  have "cos_central_angle 0 0 \<lparr>ST_X = 9 / 1000, ST_Y = 0\<rparr> = cos (9 / 1000 * (pi / 180))"
    by (simp add: cos_central_angle_def radians_def)
  moreover have "arccos (cos (9 / 1000 * (pi / 180))) = 9 / 1000 * (pi / 180)"
    using pi_gt_zero by (intro arccos_cos) simp_all
  ultimately show ?thesis
    by (simp add: great_circle_meters_def)
qed

lemma equator_distance_bounds:
  "1000 + 1 / 2 < great_circle_meters 0 0 \<lparr>ST_X = 9 / 1000, ST_Y = 0\<rparr>"
  "great_circle_meters 0 0 \<lparr>ST_X = 9 / 1000, ST_Y = 0\<rparr> < 1001"
  using pi_lower pi_upper by (simp_all add: equator_distance)

lemma rint_between:
  assumes "of_int n - 1 / 2 < x" and "x < of_int n + 1 / 2"
  shows "rint x = n"
proof -
  from rint_bounds [of x] assms
  have "real_of_int (rint x) < of_int n + 1" "of_int n - 1 < real_of_int (rint x)"
    by linarith+
  then have "rint x < n + 1" "n - 1 < rint x" by linarith+
  then show ?thesis by simp
qed

lemma equator_rint:
  "rint (great_circle_meters 0 0 \<lparr>ST_X = 9 / 1000, ST_Y = 0\<rparr>) = 1001"
  using equator_distance_bounds by (intro rint_between) simp_all

lemma equator_selected:
  "selected (Some me) 0 0 r
     \<lparr>p_user_id = u, p_phone = ph, p_name = nm, p_verified = v, p_fcm_token = tok,
      p_location = Some \<lparr>ST_X = 9 / 1000, ST_Y = 0\<rparr>\<rparr> \<longleftrightarrow> u \<noteq> me \<and> 1001 \<le> r"
proof -
  let ?d = "great_circle_meters 0 0 \<lparr>ST_X = 9 / 1000, ST_Y = 0\<rparr>"
  have "?d \<le> of_int r \<longleftrightarrow> 1001 \<le> r"
  proof
    assume "?d \<le> of_int r"
    with equator_distance_bounds(1) have "(1000::real) < of_int r" by linarith
    then show "1001 \<le> r" by linarith
  next
    assume "1001 \<le> r"
    then have "(1001::real) \<le> of_int r" by linarith
    with equator_distance_bounds(2) show "?d \<le> of_int r" by linarith
  qed
  then show ?thesis by (simp add: selected_def)
qed

text \<open>
  C1, as the code has it. The user at latitude 0, longitude 0.009 is \<open>318.55 * pi\<close>
  metres from the centre (0, 0), between 1000.5 and 1001. The query returns the user,
  with \<open>distance_meters = 1001\<close>, exactly when \<open>radius_meters\<close> is at least 1001; in
  particular not for the radius 999. The distance is the great-circle distance on a
  sphere of radius 6371000 m by the spherical law of cosines, rounded to the nearest
  integer.
\<close>

theorem range_query_equator:
  assumes "u \<noteq> me"
  shows "get_users_in_range (Some me) 0 0 r
           [\<lparr>p_user_id = u, p_phone = ph, p_name = nm, p_verified = v, p_fcm_token = tok,
             p_location = Some \<lparr>ST_X = 9 / 1000, ST_Y = 0\<rparr>\<rparr>] =
         Inr (if 1001 \<le> r
              then [\<lparr>user_id = u, distance_meters = 1001, fcm_token = tok\<rparr>] else [])"
  using assms
  by (simp add: get_users_in_range_eq equator_selected result_row_def equator_rint)

theorem range_query_equator_witness:
  "get_users_in_range (Some ''reporter'') 0 0 1001
     [\<lparr>p_user_id = ''neighbour'', p_phone = None, p_name = ''N'', p_verified = True,
       p_fcm_token = None, p_location = Some \<lparr>ST_X = 9 / 1000, ST_Y = 0\<rparr>\<rparr>] =
   Inr [\<lparr>user_id = ''neighbour'', distance_meters = 1001, fcm_token = None\<rparr>] \<and>
   get_users_in_range (Some ''reporter'') 0 0 999
     [\<lparr>p_user_id = ''neighbour'', p_phone = None, p_name = ''N'', p_verified = True,
       p_fcm_token = None, p_location = Some \<lparr>ST_X = 9 / 1000, ST_Y = 0\<rparr>\<rparr>] = Inr []"
  using range_query_equator [of "''neighbour''" "''reporter''" 1001 None "''N''" True None]
    range_query_equator [of "''neighbour''" "''reporter''" 999 None "''N''" True None]
  by simp

text \<open>
  C1 as the specification words it asks that the radius 1000 returns this user. It does
  not: the distance exceeds 1000 m by three quarters of a metre.
\<close>

theorem range_query_radius_1000_counterexample:
  "get_users_in_range (Some ''reporter'') 0 0 1000
     [\<lparr>p_user_id = ''neighbour'', p_phone = None, p_name = ''N'', p_verified = True,
       p_fcm_token = None, p_location = Some \<lparr>ST_X = 9 / 1000, ST_Y = 0\<rparr>\<rparr>] = Inr []"
  by (simp add: get_users_in_range_eq equator_selected)

section \<open>Inserts and updates of reports\<close>

lemma update_report_location_Some [simp]:
  "update_report_location (Some x) (Some y) = Some (ST_MakePoint x y)"
  by (simp add: update_report_location_def)

lemma insert_report_InrD:
  assumes "insert_report auth_uid now new_id ins d = Inr (rep, d')"
  shows "auth_uid = Some (r_user_id rep)"
    and "i_user_id ins = Some (r_user_id rep)"
    and "i_vehicle_no ins = Some (r_vehicle_no rep)"
    and "i_lat ins = Some (r_lat rep)"
    and "i_lon ins = Some (r_lon rep)"
    and "r_location rep = ST_MakePoint (r_lon rep) (r_lat rep)"
    and "r_status rep = default_of ''pending'' (i_status ins)"
    and "status_check (r_status rep)"
    and "r_id rep = new_id"
    and "new_id \<notin> set (map r_id (reports d))"
    and "r_expiry_at rep = default_of (now + hours 2) (i_expiry_at ins)"
    and "r_created_at rep = now"
    and "r_category rep = default_of ''vehicle'' (i_category ins)"
    and "r_radius_m rep = default_of 1000 (i_radius_m ins)"
    and "d' = d\<lparr>reports := reports d @ [rep]\<rparr>"
  using assms
  by (auto simp: insert_report_def Let_def update_report_location_def
      split: option.splits if_splits)

lemma insert_report_ok:
  assumes "auth_uid = Some me" "i_user_id ins = Some me" "i_vehicle_no ins = Some v"
    and "i_lat ins = Some la" "i_lon ins = Some lo"
    and "status_check (default_of ''pending'' (i_status ins))"
    and "new_id \<notin> set (map r_id (reports d))"
  shows "\<exists>rep. insert_report auth_uid now new_id ins d =
           Inr (rep, d\<lparr>reports := reports d @ [rep]\<rparr>)"
  using assms by (simp add: insert_report_def Let_def)

lemma insert_report_ignores_location:
  "insert_report auth_uid now new_id (ins\<lparr>i_location := pt\<rparr>) d =
   insert_report auth_uid now new_id ins d"
  by (simp add: insert_report_def Let_def cong: if_cong option.case_cong)

lemma assign_columns_ignores_location:
  "(assign_columns (upd\<lparr>u_location := pt\<rparr>) r)\<lparr>r_location := loc\<rparr> =
   (assign_columns upd r)\<lparr>r_location := loc\<rparr>"
  by (simp add: assign_columns_def)

lemma assign_columns_fields [simp]:
  "r_lon (assign_columns (upd\<lparr>u_location := pt\<rparr>) r) = r_lon (assign_columns upd r)"
  "r_lat (assign_columns (upd\<lparr>u_location := pt\<rparr>) r) = r_lat (assign_columns upd r)"
  "r_user_id (assign_columns (upd\<lparr>u_location := pt\<rparr>) r) = r_user_id (assign_columns upd r)"
  "r_status (assign_columns (upd\<lparr>u_location := pt\<rparr>) r) = r_status (assign_columns upd r)"
  "r_expiry_at (assign_columns (upd\<lparr>u_location := pt\<rparr>) r) =
     r_expiry_at (assign_columns upd r)"
  by (simp_all add: assign_columns_def)

lemma update_row_ignores_location:
  "update_row auth_uid now rid (upd\<lparr>u_location := pt\<rparr>) r = update_row auth_uid now rid upd r"
  by (simp add: update_row_def Let_def assign_columns_ignores_location
      cong: if_cong option.case_cong)

lemma update_rows_ignores_location:
  "update_rows auth_uid now rid (upd\<lparr>u_location := pt\<rparr>) rs = update_rows auth_uid now rid upd rs"
  by (induction rs) (simp_all add: update_row_ignores_location cong: sum.case_cong)

lemma update_report_ignores_location:
  "update_report auth_uid now rid (upd\<lparr>u_location := pt\<rparr>) d = update_report auth_uid now rid upd d"
  by (simp add: update_report_def update_rows_ignores_location)

lemma update_row_InrD:
  assumes "update_row auth_uid now rid upd r = Inr r'"
  shows "r' = r \<or>
         (r_id r = rid \<and> r_location r' = ST_MakePoint (r_lon r') (r_lat r') \<and>
          status_check (r_status r') \<and>
          r_lon r' = default_of (r_lon r) (u_lon upd) \<and>
          r_lat r' = default_of (r_lat r) (u_lat upd))"
  using assms
  by (auto simp: update_row_def Let_def assign_columns_def split: if_splits)

lemma update_rows_list_all:
  assumes "update_rows auth_uid now rid upd rs = Inr rs'"
    and "list_all P rs"
    and "\<And>r r'. update_row auth_uid now rid upd r = Inr r' \<Longrightarrow> P r \<Longrightarrow> P r'"
  shows "list_all P rs'"
  using assms
proof (induction rs arbitrary: rs')
  case Nil
  then show ?case by simp
next
  case (Cons r rs)
  then show ?case
    by (auto split: sum.splits)
qed

lemma update_report_locations_derived:
  assumes "update_report auth_uid now rid upd d = Inr d'" and "locations_derived d"
  shows "locations_derived d'"
proof -
  from assms(1) obtain rs' where rs': "update_rows auth_uid now rid upd (reports d) = Inr rs'"
    and d': "d' = d\<lparr>reports := rs'\<rparr>"
    by (auto simp: update_report_def split: sum.splits)
  have "list_all location_derived rs'"
    using rs' assms(2) unfolding locations_derived_def
    by (rule update_rows_list_all) (auto dest!: update_row_InrD simp: location_derived_def)
  then show ?thesis by (simp add: d' locations_derived_def)
qed

lemma update_report_statuses_checked:
  assumes "update_report auth_uid now rid upd d = Inr d'" and "statuses_checked d"
  shows "statuses_checked d'"
proof -
  from assms(1) obtain rs' where rs': "update_rows auth_uid now rid upd (reports d) = Inr rs'"
    and d': "d' = d\<lparr>reports := rs'\<rparr>"
    by (auto simp: update_report_def split: sum.splits)
  have "list_all (\<lambda>r. status_check (r_status r)) rs'"
    using rs' assms(2) unfolding statuses_checked_def
    by (rule update_rows_list_all) (auto dest!: update_row_InrD)
  then show ?thesis by (simp add: d' statuses_checked_def)
qed

lemma insert_report_locations_derived:
  assumes "insert_report auth_uid now new_id ins d = Inr (rep, d')" and "locations_derived d"
  shows "locations_derived d'"
  using insert_report_InrD(6,15) [OF assms(1)] assms(2)
  by (simp add: locations_derived_def location_derived_def)

lemma insert_report_statuses_checked:
  assumes "insert_report auth_uid now new_id ins d = Inr (rep, d')" and "statuses_checked d"
  shows "statuses_checked d'"
  using insert_report_InrD(8,15) [OF assms(1)] assms(2)
  by (simp add: statuses_checked_def)

section \<open>The shape of the range query\<close>

text \<open>
  What follows from the text of the query alone, whether or not it raises: a row it
  gives for a profile carries that profile's user id, the profile has a location, the
  caller is signed in and is not that user; and the rows it returns are, in order, those
  of the profiles that give a row.
\<close>

lemma range_row_SomeD:
  assumes "range_row auth_uid a b r p = Inr (Some u)"
  shows "user_id u = p_user_id p" and "p_location p \<noteq> None"
    and "auth_uid \<noteq> None" and "Some (p_user_id p) \<noteq> auth_uid"
  using assms
  by (auto simp: range_row_def split: option.splits if_splits sum.splits)

lemma get_users_in_range_InrD:
  assumes "get_users_in_range auth_uid a b r ps = Inr rows"
  shows "map user_id rows =
           map p_user_id (filter (\<lambda>p. \<exists>u. range_row auth_uid a b r p = Inr (Some u)) ps)"
  using assms
proof (induction ps arbitrary: rows)
  case Nil
  then show ?case by simp
next
  case (Cons p ps)
  then show ?case
    by (auto split: sum.splits option.splits dest: range_row_SomeD(1))
qed

lemma range_rows_from_profiles:
  assumes "get_users_in_range auth_uid a b r ps = Inr rows" and "u \<in> set rows"
  shows "\<exists>p\<in>set ps. p_user_id p = user_id u \<and> p_location p \<noteq> None \<and>
           auth_uid \<noteq> None \<and> Some (p_user_id p) \<noteq> auth_uid"
proof -
  from assms(2) have "user_id u \<in> set (map user_id rows)" by simp
  then have "user_id u \<in> set (map p_user_id
      (filter (\<lambda>p. \<exists>u. range_row auth_uid a b r p = Inr (Some u)) ps))"
    by (simp only: get_users_in_range_InrD [OF assms(1)])
  then obtain p v where "p \<in> set ps" "range_row auth_uid a b r p = Inr (Some v)"
    "p_user_id p = user_id u"
    by auto
  with range_row_SomeD(2-4) [of auth_uid a b r p v] show ?thesis
    by blast
qed

lemma range_rows_distinct:
  assumes "get_users_in_range auth_uid a b r ps = Inr rows" and "distinct (map p_user_id ps)"
  shows "distinct (map user_id rows)"
  unfolding get_users_in_range_InrD [OF assms(1)] using assms(2)
  by (rule distinct_map_filter)

section \<open>C4: no row for a user without a location\<close>

text \<open>
  C4. Let the profiles have distinct user ids, as \<open>UNIQUE\<close> on \<open>profiles.user_id\<close>
  makes them, and let a profile have no stored location. Whatever the centre, the radius
  and the caller, whenever \<open>get_users_in_range\<close> returns rows, none of them is this
  user's; and no row of \<open>get_users_in_radius\<close> is this user's, whatever \<open>ST_DWithin\<close>
  answers.
\<close>

theorem null_location_excluded:
  assumes "distinct (map p_user_id ps)" and "p \<in> set ps" and "p_location p = None"
  shows "(\<forall>rows. get_users_in_range auth_uid a b r ps = Inr rows \<longrightarrow>
                p_user_id p \<notin> user_id ` set rows) \<and>
         p_user_id p \<notin> ur_user_id ` set (get_users_in_radius dwithin a b r ps)"
proof -
  have inj: "inj_on p_user_id (set ps)"
    using assms(1) by (simp add: distinct_map)
  have same: "q = p" if "q \<in> set ps" "p_user_id q = p_user_id p" for q
    using inj that assms(2) by (auto dest: inj_onD)
  have "p_user_id p \<notin> user_id ` set rows"
    if ret: "get_users_in_range auth_uid a b r ps = Inr rows" for rows
  proof
    assume "p_user_id p \<in> user_id ` set rows"
    then obtain u where "u \<in> set rows" "user_id u = p_user_id p" by auto
    with range_rows_from_profiles [OF ret] obtain q where
      q: "q \<in> set ps" "p_user_id q = p_user_id p" "p_location q \<noteq> None"
      by metis
    from same [OF q(1,2)] q(3) assms(3) show False by simp
  qed
  moreover have "p_user_id p \<notin> ur_user_id ` set (get_users_in_radius dwithin a b r ps)"
  proof
    assume "p_user_id p \<in> ur_user_id ` set (get_users_in_radius dwithin a b r ps)"
    then obtain q where "q \<in> set ps" "p_location q \<noteq> None" "p_user_id q = p_user_id p"
      by (auto simp: get_users_in_radius_def split: option.splits)
    moreover from this same have "q = p" by blast
    ultimately show False using assms(3) by simp
  qed
  ultimately show ?thesis by blast
qed

text \<open>
  A point at distance 0 of the centre, for the examples: the query of the reporter returns
  the neighbour and not the user without a location.
\<close>

lemma great_circle_same_point:
  "great_circle_meters la lo (ST_MakePoint lo la) = 0"
proof -
  have "cos_central_angle la lo (ST_MakePoint lo la) =
          cos (radians la) * cos (radians la) + sin (radians la) * sin (radians la)"
    by (simp add: cos_central_angle_def ST_MakePoint_def)
  also have "\<dots> = 1"
    using sin_cos_squared_add3 [of "radians la"] by simp
  finally show ?thesis
    by (simp add: great_circle_meters_def)
qed

lemma rint_0 [simp]: "rint 0 = 0"
  by (simp add: rint_def)

lemma range_db2:
  "get_users_in_range (Some ''user-a'') (129 / 10) (776 / 10) 1000 (profiles db2) =
     Inr [\<lparr>user_id = ''user-b'', distance_meters = 0, fcm_token = Some ''token-b''\<rparr>]"
  using great_circle_same_point [of "129 / 10" "776 / 10"]
  by (simp add: get_users_in_range_eq db2_def db0_def profile_a_def profile_b_def profile_c_def
      selected_def result_row_def)

theorem null_location_excluded_witness:
  "distinct (map p_user_id (profiles db2)) \<and> profile_c \<in> set (profiles db2) \<and>
   p_location profile_c = None \<and>
   get_users_in_range (Some ''user-a'') (129 / 10) (776 / 10) 1000 (profiles db2) =
     Inr [\<lparr>user_id = ''user-b'', distance_meters = 0, fcm_token = Some ''token-b''\<rparr>] \<and>
   ''user-c'' \<notin> user_id `
     set [\<lparr>user_id = ''user-b'', distance_meters = 0, fcm_token = Some ''token-b''\<rparr>] \<and>
   ''user-c'' \<notin> ur_user_id ` set (get_users_in_radius (\<lambda>x y r. True) (129 / 10) (776 / 10) 1000
                                   (profiles db2))"
proof -
  have h: "distinct (map p_user_id (profiles db2))" "profile_c \<in> set (profiles db2)"
    "p_location profile_c = None"
    by (simp_all add: db2_def db0_def profile_a_def profile_b_def profile_c_def)
  from null_location_excluded [OF h, of "Some ''user-a''" "129 / 10" "776 / 10" 1000
      "\<lambda>x y r. True"] h range_db2
  show ?thesis by (simp add: profile_c_def)
qed

section \<open>C5: the stored point is derived from the stored coordinates\<close>

lemma insert0: "insert_report (Some ''user-a'') 0 ''report-1'' ins0 db0 = Inr (rep0, db1)"
  by (simp add: insert_report_def Let_def ins0_def db0_def db1_def rep0_def default_of_def
      status_check_def)

lemma update0:
  "update_report (Some ''user-a'') 1 ''report-1'' upd0 db1 =
     Inr (db1\<lparr>reports := [rep0\<lparr>r_lat := 13, r_location := ST_MakePoint (776 / 10) 13\<rparr>]\<rparr>)"
  by (simp add: update_report_def update_row_def assign_columns_def upd0_def db1_def db0_def
      rep0_def default_of_def status_check_def hours_def)

lemma locations_derived_iff:
  "locations_derived d \<longleftrightarrow> (\<forall>r\<in>set (reports d). r_location r = ST_MakePoint (r_lon r) (r_lat r))"
  by (simp add: locations_derived_def location_derived_def list_all_iff)

text \<open>
  C5. In a store whose reports all have \<open>location = ST_MakePoint lon lat\<close>: a report that
  an insert adds has the point made from its own \<open>lon\<close> and \<open>lat\<close>, which are the
  submitted ones, and all reports of the new store still have it; after an update, of
  whatever columns, all reports still have it. A point supplied by the client, in an
  insert or in an update, changes nothing: the statement with it equals the statement
  without it.
\<close>

theorem report_location_derived:
  assumes "locations_derived d"
  shows "(\<forall>rep d'. insert_report auth_uid now new_id ins d = Inr (rep, d') \<longrightarrow>
            i_lon ins = Some (r_lon rep) \<and> i_lat ins = Some (r_lat rep) \<and>
            r_location rep = ST_MakePoint (r_lon rep) (r_lat rep) \<and>
            reports d' = reports d @ [rep] \<and>
            (\<forall>r\<in>set (reports d'). r_location r = ST_MakePoint (r_lon r) (r_lat r))) \<and>
         (\<forall>d'. update_report auth_uid now rid upd d = Inr d' \<longrightarrow>
            (\<forall>r\<in>set (reports d'). r_location r = ST_MakePoint (r_lon r) (r_lat r))) \<and>
         insert_report auth_uid now new_id (ins\<lparr>i_location := pt\<rparr>) d =
           insert_report auth_uid now new_id ins d \<and>
         update_report auth_uid now rid (upd\<lparr>u_location := pt\<rparr>) d =
           update_report auth_uid now rid upd d"
proof (intro conjI allI impI)
  fix rep d'
  assume ins: "insert_report auth_uid now new_id ins d = Inr (rep, d')"
  show "i_lon ins = Some (r_lon rep)" "i_lat ins = Some (r_lat rep)"
    "r_location rep = ST_MakePoint (r_lon rep) (r_lat rep)"
    using insert_report_InrD [OF ins] by simp_all
  show "reports d' = reports d @ [rep]"
    using insert_report_InrD(15) [OF ins] by simp
  show "\<forall>r\<in>set (reports d'). r_location r = ST_MakePoint (r_lon r) (r_lat r)"
    using insert_report_locations_derived [OF ins assms] by (simp add: locations_derived_iff)
next
  fix d'
  assume "update_report auth_uid now rid upd d = Inr d'"
  from update_report_locations_derived [OF this assms]
  show "\<forall>r\<in>set (reports d'). r_location r = ST_MakePoint (r_lon r) (r_lat r)"
    by (simp add: locations_derived_iff)
qed (simp_all add: insert_report_ignores_location update_report_ignores_location)

text \<open>
  The case of the specification: latitude 12.9, longitude 77.6, the client sending the
  point (0, 0). The stored point is \<open>ST_MakePoint 77.6 12.9\<close>; after the latitude is
  updated to 13, with the client sending (1, 1), it is \<open>ST_MakePoint 77.6 13\<close>.
\<close>

theorem report_location_derived_witness:
  "locations_derived db1 \<and>
   insert_report (Some ''user-a'') 0 ''report-1'' ins0 db0 = Inr (rep0, db1) \<and>
   i_location ins0 = Some (ST_MakePoint 0 0) \<and>
   r_location rep0 = ST_MakePoint (776 / 10) (129 / 10) \<and>
   update_report (Some ''user-a'') 1 ''report-1'' upd0 db1 =
     Inr (db1\<lparr>reports := [rep0\<lparr>r_lat := 13, r_location := ST_MakePoint (776 / 10) 13\<rparr>]\<rparr>) \<and>
   update_report (Some ''user-a'') 1 ''report-1'' (upd0\<lparr>u_location := None\<rparr>) db1 =
     update_report (Some ''user-a'') 1 ''report-1'' upd0 db1"
proof -
  have d0: "locations_derived db0"
    by (simp add: locations_derived_def db0_def)
  have d1: "locations_derived db1"
    by (simp add: locations_derived_def location_derived_def db1_def db0_def rep0_def)
  from report_location_derived [OF d0, of "Some ''user-a''" 0 "''report-1''" ins0]
    report_location_derived [OF d1, of "Some ''user-a''" 1 _ _ "''report-1''" upd0 None]
  show ?thesis
    using d1 insert0 update0 by (simp add: ins0_def rep0_def)
qed

section \<open>C10: the check on \<open>status\<close>\<close>

lemma statuses_checked_iff:
  "statuses_checked d \<longleftrightarrow>
     (\<forall>r\<in>set (reports d). r_status r \<in> {''pending'', ''verified'', ''false''})"
  by (simp add: statuses_checked_def status_check_def list_all_iff)

lemma insert_report_active:
  assumes "i_status ins = Some ''active''"
  shows "insert_report auth_uid now new_id ins d \<noteq> Inr x"
proof
  assume "insert_report auth_uid now new_id ins d = Inr x"
  then have "insert_report auth_uid now new_id ins d = Inr (fst x, snd x)" by simp
  from insert_report_InrD(7,8) [OF this] assms show False
    by (simp add: default_of_def status_check_def)
qed

lemma insert_report_active_check:
  assumes "i_status ins = Some ''active''" "auth_uid = i_user_id ins" "auth_uid \<noteq> None"
    "i_vehicle_no ins \<noteq> None" "i_lat ins \<noteq> None" "i_lon ins \<noteq> None"
  shows "insert_report auth_uid now new_id ins d = Inl Check_violation"
  using assms
  by (auto simp: insert_report_def Let_def default_of_def status_check_def)

lemma stolen_onSubmit_unchanged:
  "snd (stolen_onSubmit user auth_uid location manual urls client_now now new_id fl data d) = d"
  "fst (stolen_onSubmit user auth_uid location manual urls client_now now new_id fl data d) \<noteq>
     Report_saved"
  by (auto simp: stolen_onSubmit_def insert_report_active split: sum.splits)

lemma falsy_iff: "\<not> falsy x \<longleftrightarrow> (\<exists>v. x = Some v \<and> v \<noteq> 0)"
  by (cases x) (simp_all add: falsy_def)

lemma stolen_onSubmit_check:
  assumes "user = auth_uid" "user \<noteq> None"
    and "manual \<or> \<not> falsy (latitude location) \<and> \<not> falsy (longitude location)"
    and "\<not> report_insert_fails fl"
  shows "stolen_onSubmit user auth_uid location manual urls client_now now new_id fl data d =
           (Submit_failed Check_violation, d)"
proof -
  let ?ins = "\<lparr>i_user_id = user, i_category = Some ''vehicle'',
      i_vehicle_no = Some (vehicleNumber data),
      i_description = Some (stolen_description data (length urls)),
      i_photo_url = (case urls of [] \<Rightarrow> None | url # _ \<Rightarrow> if url = [] then None else Some url),
      i_lat = (if manual then Some 0 else latitude location),
      i_lon = (if manual then Some 0 else longitude location),
      i_location = (if manual then Some (ST_MakePoint 0 0) else client_point location),
      i_radius_m = Some 5000, i_expiry_at = Some (client_now + hours (7 * 24)),
      i_status = Some ''active''\<rparr>"
  have "insert_report auth_uid now new_id ?ins d = Inl Check_violation"
    using assms by (intro insert_report_active_check) (auto simp: falsy_iff)
  then show ?thesis
    using assms by (auto simp: stolen_onSubmit_def)
qed

text \<open>
  C10. In a store whose reports all have a status among \<open>pending\<close>, \<open>verified\<close> and
  \<open>false\<close>: a report that an insert adds has such a status, \<open>pending\<close> when none was
  given, and so have all reports after an insert or an update. An insert that gives
  \<open>status = 'active'\<close> never adds a row, and when the caller is the owner and the required
  columns are there it ends with the check violation. The stolen vehicle form always
  gives \<open>'active'\<close>: its \<open>onSubmit\<close> leaves the store as it was and never reports
  success, and when it reaches the store as the signed-in user it fails with the check
  violation.
\<close>

theorem report_status_checked:
  assumes "statuses_checked d"
  shows "(\<forall>rep d'. insert_report auth_uid now new_id ins d = Inr (rep, d') \<longrightarrow>
            r_status rep \<in> {''pending'', ''verified'', ''false''} \<and>
            (i_status ins = None \<longrightarrow> r_status rep = ''pending'') \<and>
            (\<forall>r\<in>set (reports d'). r_status r \<in> {''pending'', ''verified'', ''false''})) \<and>
         (\<forall>d'. update_report auth_uid now rid upd d = Inr d' \<longrightarrow>
            (\<forall>r\<in>set (reports d'). r_status r \<in> {''pending'', ''verified'', ''false''})) \<and>
         (i_status ins = Some ''active'' \<longrightarrow>
            (\<forall>x. insert_report auth_uid now new_id ins d \<noteq> Inr x)) \<and>
         (i_status ins = Some ''active'' \<and> auth_uid = i_user_id ins \<and> auth_uid \<noteq> None \<and>
          i_vehicle_no ins \<noteq> None \<and> i_lat ins \<noteq> None \<and> i_lon ins \<noteq> None \<longrightarrow>
            insert_report auth_uid now new_id ins d = Inl Check_violation) \<and>
         snd (stolen_onSubmit user auth_uid location manual urls client_now now new_id fl data d) = d \<and>
         fst (stolen_onSubmit user auth_uid location manual urls client_now now new_id fl data d)
           \<noteq> Report_saved \<and>
         (user = auth_uid \<and> user \<noteq> None \<and>
          (manual \<or> \<not> falsy (latitude location) \<and> \<not> falsy (longitude location)) \<and>
          \<not> report_insert_fails fl \<longrightarrow>
            stolen_onSubmit user auth_uid location manual urls client_now now new_id fl data d =
              (Submit_failed Check_violation, d))"
proof (intro conjI allI impI)
  fix rep d'
  assume ins: "insert_report auth_uid now new_id ins d = Inr (rep, d')"
  show "r_status rep \<in> {''pending'', ''verified'', ''false''}"
    using insert_report_InrD(8) [OF ins] by (simp add: status_check_def)
  show "r_status rep = ''pending''" if "i_status ins = None"
    using insert_report_InrD(7) [OF ins] that by (simp add: default_of_def)
  show "\<forall>r\<in>set (reports d'). r_status r \<in> {''pending'', ''verified'', ''false''}"
    using insert_report_statuses_checked [OF ins assms] by (simp add: statuses_checked_iff)
next
  fix d'
  assume "update_report auth_uid now rid upd d = Inr d'"
  from update_report_statuses_checked [OF this assms]
  show "\<forall>r\<in>set (reports d'). r_status r \<in> {''pending'', ''verified'', ''false''}"
    by (simp add: statuses_checked_iff)
next
  fix x
  assume "i_status ins = Some ''active''"
  then show "insert_report auth_uid now new_id ins d \<noteq> Inr x"
    by (rule insert_report_active)
next
  assume "i_status ins = Some ''active'' \<and> auth_uid = i_user_id ins \<and> auth_uid \<noteq> None \<and>
          i_vehicle_no ins \<noteq> None \<and> i_lat ins \<noteq> None \<and> i_lon ins \<noteq> None"
  then show "insert_report auth_uid now new_id ins d = Inl Check_violation"
    by (intro insert_report_active_check) auto
next
  assume "user = auth_uid \<and> user \<noteq> None \<and>
          (manual \<or> \<not> falsy (latitude location) \<and> \<not> falsy (longitude location)) \<and>
          \<not> report_insert_fails fl"
  then show "stolen_onSubmit user auth_uid location manual urls client_now now new_id fl data d =
              (Submit_failed Check_violation, d)"
    by (intro stolen_onSubmit_check) auto
qed (simp_all add: stolen_onSubmit_unchanged)

text \<open>A default insert, an insert and an update asking for \<open>'active'\<close>, and the form.\<close>

theorem report_status_checked_witness:
  "statuses_checked db1 \<and>
   insert_report (Some ''user-a'') 0 ''report-1'' ins0 db0 = Inr (rep0, db1) \<and>
   r_status rep0 = ''pending'' \<and>
   insert_report (Some ''user-a'') 1 ''report-2'' (ins0\<lparr>i_status := Some ''active''\<rparr>) db1 =
     Inl Check_violation \<and>
   update_report (Some ''user-a'') 1 ''report-1'' (upd0\<lparr>u_status := Some ''active''\<rparr>) db1 =
     Inl Check_violation \<and>
   stolen_onSubmit (Some ''user-a'') (Some ''user-a'') \<lparr>latitude = None, longitude = None\<rparr>
     True [] 5 1 ''report-2'' no_faults stolen0 db1 = (Submit_failed Check_violation, db1)"
proof -
  have d0: "statuses_checked db0"
    by (simp add: statuses_checked_def db0_def)
  have d1: "statuses_checked db1"
    by (simp add: statuses_checked_def status_check_def db1_def db0_def rep0_def)
  have upd: "update_report (Some ''user-a'') 1 ''report-1'' (upd0\<lparr>u_status := Some ''active''\<rparr>) db1 =
     Inl Check_violation"
    by (simp add: update_report_def update_row_def assign_columns_def upd0_def db1_def db0_def
      rep0_def default_of_def status_check_def hours_def)
  from report_status_checked [OF d0, of "Some ''user-a''" 0 "''report-1''" ins0]
    report_status_checked [OF d1, of "Some ''user-a''" 1 "''report-2''"
      "ins0\<lparr>i_status := Some ''active''\<rparr>" "''report-1''" "upd0\<lparr>u_status := Some ''active''\<rparr>"
      "Some ''user-a''" "\<lparr>latitude = None, longitude = None\<rparr>" True "[]" 5 no_faults stolen0]
  show ?thesis
    using d1 insert0 upd by (simp add: ins0_def rep0_def no_faults_def)
qed

section \<open>C6: a report is listed until its expiry\<close>

lemma set_order_created_at_desc [simp]: "set (order_created_at_desc rs) = set rs"
  by (simp add: order_created_at_desc_def)

lemma select_reports_iff [simp]:
  "r \<in> set (select_reports now d) \<longleftrightarrow> r \<in> set (reports d) \<and> now < r_expiry_at r"
  by (simp add: select_reports_def)

lemma loadReports_live_iff:
  "r \<in> set (loadReports_live client_now now d) \<longleftrightarrow>
     r \<in> set (reports d) \<and> now < r_expiry_at r \<and> r_category r = ''vehicle'' \<and>
     client_now \<le> r_expiry_at r"
  by (auto simp: loadReports_live_def)

lemma loadReports_index_iff:
  "r \<in> set (loadReports_index client_now now d) \<longleftrightarrow>
     r \<in> set (reports d) \<and> now < r_expiry_at r \<and> client_now \<le> r_expiry_at r"
  by (auto simp: loadReports_index_def)

lemma loadUserReports_iff:
  "loadUserReports user now d = Some rs \<Longrightarrow>
     r \<in> set rs \<longleftrightarrow> r \<in> set (reports d) \<and> now < r_expiry_at r \<and> user = Some (r_user_id r)"
  by (auto simp: loadUserReports_def split: option.splits)

lemma hours_less: "hours 1 < hours 2" "hours 2 < hours 3"
  by (simp_all add: hours_def)

lemma onSubmit_saved:
  assumes "onSubmit user auth_uid location photoUrl client_now now new_id fl data d =
             (Report_saved, d')"
  shows "\<exists>rep. reports d' = reports d @ [rep] \<and> r_id rep = new_id \<and> r_created_at rep = now \<and>
               r_expiry_at rep = client_now + hours (f_expiryHours data) \<and>
               r_category rep = ''vehicle''"
proof -
  from assms obtain rep where
    ins: "insert_report auth_uid now new_id
            \<lparr>i_user_id = user, i_category = None, i_vehicle_no = Some (f_vehicleNo data),
             i_description = Some (f_description data), i_photo_url = photoUrl,
             i_lat = latitude location, i_lon = longitude location,
             i_location = client_point location, i_radius_m = Some (f_radius data),
             i_expiry_at = Some (client_now + hours (f_expiryHours data)),
             i_status = None\<rparr> d = Inr (rep, d')"
    by (auto simp: onSubmit_def split: if_splits sum.splits)
  from insert_report_InrD(9,11,12,13,15) [OF ins] show ?thesis
    by (simp add: default_of_def)
qed

text \<open>
  C6. A stored report with \<open>expiry_at = created_at + 2 hours\<close> is read under the policy
  "Users can view all active reports", and listed by the index page, one hour after its
  creation; the live map lists it then when its category is \<open>vehicle\<close>, the only
  category that map asks for. Three hours after its creation none of them returns it,
  whatever the browser's clock says. Every report that the policy, the live map, the
  index page or the list of a user's own reports returns at the store's time \<open>now\<close> has
  \<open>now < expiry_at\<close>: the listings are computed from the stored \<open>expiry_at\<close> and the
  clock, and no column changes. A report inserted with no \<open>expiry_at\<close>, and one
  the theft report form submits with \<open>expiryHours = 2\<close> when the browser's clock agrees
  with the store's, has \<open>expiry_at = created_at + 2 hours\<close>.
\<close>

theorem expiry_visibility:
  "(r \<in> set (reports d) \<and> r_expiry_at r = r_created_at r + hours 2 \<longrightarrow>
      r \<in> set (select_reports (r_created_at r + hours 1) d) \<and>
      r \<notin> set (select_reports (r_created_at r + hours 3) d) \<and>
      r \<in> set (loadReports_index (r_created_at r + hours 1) (r_created_at r + hours 1) d) \<and>
      r \<notin> set (loadReports_index client_now (r_created_at r + hours 3) d) \<and>
      (r_category r = ''vehicle'' \<longrightarrow>
         r \<in> set (loadReports_live (r_created_at r + hours 1) (r_created_at r + hours 1) d)) \<and>
      r \<notin> set (loadReports_live client_now (r_created_at r + hours 3) d)) \<and>
   (\<forall>x\<in>set (select_reports now d). now < r_expiry_at x) \<and>
   (\<forall>x\<in>set (loadReports_live client_now now d). now < r_expiry_at x) \<and>
   (\<forall>x\<in>set (loadReports_index client_now now d). now < r_expiry_at x) \<and>
   (\<forall>rs. loadUserReports user now d = Some rs \<longrightarrow> (\<forall>x\<in>set rs. now < r_expiry_at x)) \<and>
   (\<forall>rep d'. insert_report auth_uid now new_id ins d = Inr (rep, d') \<and> i_expiry_at ins = None \<longrightarrow>
      r_expiry_at rep = r_created_at rep + hours 2) \<and>
   (\<forall>d'. onSubmit user auth_uid location photoUrl now now new_id fl data d = (Report_saved, d') \<and>
         f_expiryHours data = 2 \<longrightarrow>
      (\<exists>rep. reports d' = reports d @ [rep] \<and> r_id rep = new_id \<and>
             r_expiry_at rep = r_created_at rep + hours 2))"
proof (intro conjI allI impI ballI)
  fix rep d'
  assume "insert_report auth_uid now new_id ins d = Inr (rep, d') \<and> i_expiry_at ins = None"
  then have ins: "insert_report auth_uid now new_id ins d = Inr (rep, d')"
    and nul: "i_expiry_at ins = None" by simp_all
  from insert_report_InrD(11,12) [OF ins] nul
  show "r_expiry_at rep = r_created_at rep + hours 2"
    by (simp add: default_of_def)
next
  fix d'
  assume "onSubmit user auth_uid location photoUrl now now new_id fl data d = (Report_saved, d') \<and>
         f_expiryHours data = 2"
  then have run: "onSubmit user auth_uid location photoUrl now now new_id fl data d = (Report_saved, d')"
    and two: "f_expiryHours data = 2" by simp_all
  from onSubmit_saved [OF run] two
  show "\<exists>rep. reports d' = reports d @ [rep] \<and> r_id rep = new_id \<and>
             r_expiry_at rep = r_created_at rep + hours 2"
    by auto
next
  fix rs x
  assume "loadUserReports user now d = Some rs" "x \<in> set rs"
  then show "now < r_expiry_at x"
    by (simp add: loadUserReports_iff)
qed (use hours_less in \<open>auto simp: loadReports_live_iff loadReports_index_iff\<close>)

text \<open>The report of the example, created at time 0, read at one hour and at three hours.\<close>

theorem expiry_visibility_witness:
  "rep0 \<in> set (reports db1) \<and> r_expiry_at rep0 = r_created_at rep0 + hours 2 \<and>
   rep0 \<in> set (select_reports (hours 1) db1) \<and>
   rep0 \<notin> set (select_reports (hours 3) db1) \<and>
   rep0 \<in> set (loadReports_live (hours 1) (hours 1) db1) \<and>
   rep0 \<notin> set (loadReports_live (hours 3) (hours 3) db1) \<and>
   loadReports_index (hours 1) (hours 1) db1 = [rep0] \<and>
   loadReports_index (hours 3) (hours 3) db1 = [] \<and>
   fst (onSubmit (Some ''user-a'') (Some ''user-a'') here0 None 0 0 ''report-1'' no_faults form0 db0)
     = Report_saved"
proof -
  have sub: "fst (onSubmit (Some ''user-a'') (Some ''user-a'') here0 None 0 0 ''report-1'' no_faults
    form0 db0) = Report_saved"
    by (simp add: onSubmit_def insert_report_def Let_def here0_def form0_def db0_def
        no_faults_def falsy_def default_of_def status_check_def)
  have idx: "loadReports_index (hours 1) (hours 1) db1 = [rep0]"
    "loadReports_index (hours 3) (hours 3) db1 = []"
    by (simp_all add: loadReports_index_def select_reports_def order_created_at_desc_def
        db1_def db0_def rep0_def hours_def)
  have mem: "rep0 \<in> set (reports db1)" "r_expiry_at rep0 = r_created_at rep0 + hours 2"
    "r_created_at rep0 = 0" "r_category rep0 = ''vehicle''"
    by (simp_all add: db1_def rep0_def)
  from expiry_visibility [of rep0 db1 "hours 3"] mem sub idx
  show ?thesis by simp
qed

section \<open>C8: one confirmation for a report and a user\<close>

lemma insert_confirmation_InrD:
  assumes "insert_confirmation auth_uid now ins d = Inr d'"
  shows "auth_uid = Some (ci_user_id ins)"
    and "(ci_report_id ins, ci_user_id ins) \<notin> set (map confirmation_key (confirmations d))"
    and "confirmations d' = confirmations d @
           [\<lparr>c_report_id = ci_report_id ins, c_user_id = ci_user_id ins,
             c_type = ci_type ins, c_created_at = now\<rparr>]"
  using assms by (auto simp: insert_confirmation_def split: if_splits)

lemma filter_key_empty:
  assumes "k \<notin> set (map confirmation_key cs)"
  shows "filter (\<lambda>c. confirmation_key c = k) cs = []"
  using assms by (induction cs) auto

text \<open>
  C8. In a store whose confirmations are unique in \<open>(report_id, user_id)\<close>, let a user's
  confirmation be accepted. A second confirmation that the same user submits for the
  same report, of any of the three types, fails with the unique violation of
  \<open>UNIQUE(report_id, user_id)\<close>; the store, which a failed statement leaves as it was,
  holds exactly one row for the pair, and its confirmations are still unique. The
  insert has no test of its own for an existing row: the failure is the constraint's.
\<close>

theorem confirmation_unique_pair:
  assumes "confirmations_unique d"
    and "insert_confirmation (Some u) t1 c1 d = Inr d1"
    and "ci_report_id c2 = ci_report_id c1" and "ci_user_id c2 = ci_user_id c1"
    and "ci_type c2 \<in> {''seen'', ''false'', ''call_police''}"
  shows "insert_confirmation (Some u) t2 c2 d1 = Inl Unique_violation \<and>
         length (filter (\<lambda>c. c_report_id c = ci_report_id c1 \<and> c_user_id c = ci_user_id c1)
                   (confirmations d1)) = 1 \<and>
         confirmations_unique d1"
proof -
  note first = insert_confirmation_InrD [OF assms(2)]
  let ?k = "(ci_report_id c1, ci_user_id c1)"
  have pred: "(\<lambda>c. c_report_id c = ci_report_id c1 \<and> c_user_id c = ci_user_id c1) =
              (\<lambda>c. confirmation_key c = ?k)"
    by (auto simp: confirmation_key_def)
  have "?k \<in> set (map confirmation_key (confirmations d1))"
    by (simp add: first(3) confirmation_key_def)
  then have "insert_confirmation (Some u) t2 c2 d1 = Inl Unique_violation"
    using first(1) assms(3,4,5) by (simp add: insert_confirmation_def type_check_def)
  moreover have "length (filter (\<lambda>c. confirmation_key c = ?k) (confirmations d1)) = 1"
    using filter_key_empty [OF first(2)] by (simp add: first(3) confirmation_key_def)
  moreover have "confirmations_unique d1"
    using assms(1) first(2) by (simp add: confirmations_unique_def first(3) confirmation_key_def)
  ultimately show ?thesis by (simp add: pred)
qed

text \<open>Two confirmations of type \<open>seen\<close> by the same user for the report of the example.\<close>

theorem confirmation_unique_pair_witness:
  "confirmations_unique db1 \<and>
   insert_confirmation (Some ''user-b'') 5 seen0 db1 =
     Inr (db1\<lparr>confirmations := [\<lparr>c_report_id = ''report-1'', c_user_id = ''user-b'',
                                  c_type = ''seen'', c_created_at = 5\<rparr>]\<rparr>) \<and>
   insert_confirmation (Some ''user-b'') 6 seen0
     (db1\<lparr>confirmations := [\<lparr>c_report_id = ''report-1'', c_user_id = ''user-b'',
                              c_type = ''seen'', c_created_at = 5\<rparr>]\<rparr>) = Inl Unique_violation \<and>
   length (filter (\<lambda>c. c_report_id c = ''report-1'' \<and> c_user_id c = ''user-b'')
     (confirmations (db1\<lparr>confirmations := [\<lparr>c_report_id = ''report-1'', c_user_id = ''user-b'',
                              c_type = ''seen'', c_created_at = 5\<rparr>]\<rparr>))) = 1"
proof -
  have u: "confirmations_unique db1"
    by (simp add: confirmations_unique_def db1_def db0_def)
  have first: "insert_confirmation (Some ''user-b'') 5 seen0 db1 =
     Inr (db1\<lparr>confirmations := [\<lparr>c_report_id = ''report-1'', c_user_id = ''user-b'',
                                  c_type = ''seen'', c_created_at = 5\<rparr>]\<rparr>)"
    by (simp add: insert_confirmation_def seen0_def type_check_def db1_def db0_def rep0_def)
  have ty: "ci_type seen0 \<in> {''seen'', ''false'', ''call_police''}"
    by (simp add: seen0_def)
  from confirmation_unique_pair [OF u first refl refl ty, of 6] u first
  show ?thesis by (simp add: seen0_def)
qed

section \<open>The dialog's submission, case by case\<close>

text \<open>
  \<open>handleSubmit\<close> either leaves the store as it was (it returned at its guard, or the
  insert of the report failed), or the caller is the signed-in user with a non-zero
  position and a fresh key; then the report is stored and the alerts added are
  \<open>delivered\<close> of what the range query answered. Nothing here uses that the range query
  returns rows.
\<close>

lemma alert_rows_eq:
  assumes "\<forall>x\<in>set xs. ai_sender_user_id x = Some me"
  shows "alert_rows (Some me) xs = Inr (map (alert_row me) xs)"
  using assms by (induction xs) simp_all

lemma make_alerts_sender:
  "\<forall>x\<in>set (make_alerts user fd rid us). ai_sender_user_id x = user"
  by (simp add: make_alerts_def)

lemma length_make_alerts [simp]: "length (make_alerts user fd rid us) = length us"
  by (simp add: make_alerts_def)

lemma insert_alerts_eq:
  "insert_notification_alerts (Some me) (make_alerts (Some me) fd rid us) d =
     Inr (d\<lparr>notification_alerts :=
            notification_alerts d @ map (alert_row me) (make_alerts (Some me) fd rid us)\<rparr>)"
  by (simp add: insert_notification_alerts_def alert_rows_eq make_alerts_sender)

lemma sendAlertsToUsers_eq:
  assumes "latitude location = Some la" "la \<noteq> 0" "longitude location = Some lo" "lo \<noteq> 0"
  shows "sendAlertsToUsers (Some me) (Some me) location fd r fl rid d =
     (let new = delivered me fd rid fl (get_users_in_range (Some me) la lo r (profiles d))
      in (Some (length new), d\<lparr>notification_alerts := notification_alerts d @ new\<rparr>))"
proof (cases "get_users_in_range (Some me) la lo r (profiles d)")
  case (Inl e)
  with assms show ?thesis
    by (simp add: sendAlertsToUsers_def falsy_def rpc_get_users_in_range_def delivered_def)
next
  case (Inr us)
  with assms show ?thesis
    by (simp add: sendAlertsToUsers_def falsy_def rpc_get_users_in_range_def delivered_def
        Let_def insert_alerts_eq)
qed

lemma insert_report_returning_InrD:
  assumes "insert_report_returning auth_uid now new_id ins d = Inr (rep, d')"
  shows "insert_report auth_uid now new_id ins d = Inr (rep, d')"
  using assms by (auto simp: insert_report_returning_def split: if_splits)

lemma hours_2_pos: "now < now + hours 2"
  by (simp add: hours_def)

lemma handleSubmit_committed:
  assumes "user = Some me" "auth_uid = Some me"
    and "latitude location = Some la" "la \<noteq> 0" "longitude location = Some lo" "lo \<noteq> 0"
    and "new_id \<notin> set (map r_id (reports d))" "\<not> report_insert_fails fl"
  shows "handleSubmit user auth_uid location fd r photoUrl now new_id fl d =
     (let rep = \<lparr>r_id = new_id, r_user_id = me, r_category = ''vehicle'',
                 r_vehicle_no = vehicleNo fd, r_description = Some (description fd),
                 r_photo_url = photoUrl, r_lat = la, r_lon = lo,
                 r_location = ST_MakePoint lo la, r_radius_m = r,
                 r_expiry_at = now + hours 2, r_status = ''pending'',
                 r_created_at = now, r_updated_at = now\<rparr>;
          new = delivered me fd new_id fl (get_users_in_range (Some me) la lo r (profiles d))
      in (Report_saved_alerts (Some (length new)),
          d\<lparr>reports := reports d @ [rep],
            notification_alerts := notification_alerts d @ new\<rparr>))"
proof -
  let ?ins = "\<lparr>i_user_id = user, i_category = Some ''vehicle'',
      i_vehicle_no = Some (vehicleNo fd), i_description = Some (description fd),
      i_photo_url = photoUrl, i_lat = latitude location, i_lon = longitude location,
      i_location = client_point location, i_radius_m = Some r, i_expiry_at = None,
      i_status = None\<rparr>"
  let ?rep = "\<lparr>r_id = new_id, r_user_id = me, r_category = ''vehicle'',
                 r_vehicle_no = vehicleNo fd, r_description = Some (description fd),
                 r_photo_url = photoUrl, r_lat = la, r_lon = lo,
                 r_location = ST_MakePoint lo la, r_radius_m = r,
                 r_expiry_at = now + hours 2, r_status = ''pending'',
                 r_created_at = now, r_updated_at = now\<rparr>"
  have ins: "insert_report_returning auth_uid now new_id ?ins d =
               Inr (?rep, d\<lparr>reports := reports d @ [?rep]\<rparr>)"
    using assms hours_2_pos [of now]
    by (simp add: insert_report_returning_def insert_report_def Let_def default_of_def
        status_check_def)
  have send: "sendAlertsToUsers (Some me) (Some me) location fd r fl new_id
                (d\<lparr>reports := reports d @ [?rep]\<rparr>) =
     (let new = delivered me fd new_id fl (get_users_in_range (Some me) la lo r (profiles d))
      in (Some (length new),
          d\<lparr>reports := reports d @ [?rep],
            notification_alerts := notification_alerts d @ new\<rparr>))"
    using sendAlertsToUsers_eq [OF assms(3-6), of me fd r fl new_id
        "d\<lparr>reports := reports d @ [?rep]\<rparr>"]
    by (simp add: Let_def)
  have run: "handleSubmit user auth_uid location fd r photoUrl now new_id fl d =
     (case insert_report_returning auth_uid now new_id ?ins d of
        Inl e \<Rightarrow> (Submit_failed e, d)
      | Inr (rep, d1) \<Rightarrow>
          (case sendAlertsToUsers user auth_uid location fd r fl (r_id rep) d1 of
             (alertsSent, d2) \<Rightarrow> (Report_saved_alerts alertsSent, d2)))"
  proof -
    have "user \<noteq> None" "\<not> falsy (latitude location)" "\<not> falsy (longitude location)"
      using assms(1,3-6) by (simp_all add: falsy_def)
    then show ?thesis
      using assms(8) by (auto simp: handleSubmit_def)
  qed
  show ?thesis
    unfolding run ins by (simp add: assms(1,2) send Let_def)
qed

lemma handleSubmit_cases:
  assumes "handleSubmit user auth_uid location fd r photoUrl now new_id fl d = (res, d')"
  shows "(d' = d \<and> (res = Returned_early \<or> (\<exists>e. res = Submit_failed e))) \<or>
         (\<exists>me la lo. user = Some me \<and> auth_uid = Some me \<and>
            latitude location = Some la \<and> la \<noteq> 0 \<and> longitude location = Some lo \<and> lo \<noteq> 0 \<and>
            new_id \<notin> set (map r_id (reports d)) \<and> \<not> report_insert_fails fl)"
proof (cases "user = None \<or> falsy (latitude location) \<or> falsy (longitude location) \<or>
    report_insert_fails fl")
  case True
  with assms show ?thesis
    by (auto simp: handleSubmit_def split: if_splits)
next
  case False
  let ?ins = "\<lparr>i_user_id = user, i_category = Some ''vehicle'',
      i_vehicle_no = Some (vehicleNo fd), i_description = Some (description fd),
      i_photo_url = photoUrl, i_lat = latitude location, i_lon = longitude location,
      i_location = client_point location, i_radius_m = Some r, i_expiry_at = None,
      i_status = None\<rparr>"
  show ?thesis
  proof (cases "insert_report_returning auth_uid now new_id ?ins d")
    case (Inl e)
    with False assms show ?thesis
      by (auto simp: handleSubmit_def)
  next
    case (Inr p)
    then obtain rep d1 where "insert_report_returning auth_uid now new_id ?ins d = Inr (rep, d1)"
      by (cases p) simp
    from insert_report_InrD(1,2,10) [OF insert_report_returning_InrD [OF this]] False
    show ?thesis
      by (auto simp: falsy_iff)
  qed
qed

lemma handleSubmit_alerts:
  assumes "handleSubmit user auth_uid location fd r photoUrl now new_id fl d = (res, d')"
  shows "(d' = d \<and> (res = Returned_early \<or> (\<exists>e. res = Submit_failed e))) \<or>
         (\<exists>me la lo rep new.
            user = Some me \<and> auth_uid = Some me \<and>
            latitude location = Some la \<and> longitude location = Some lo \<and>
            new_id \<notin> set (map r_id (reports d)) \<and>
            r_id rep = new_id \<and> r_user_id rep = me \<and>
            res = Report_saved_alerts (Some (length new)) \<and>
            d' = d\<lparr>reports := reports d @ [rep],
                   notification_alerts := notification_alerts d @ new\<rparr> \<and>
            new = delivered me fd new_id fl
                    (get_users_in_range (Some me) la lo r (profiles d)))"
proof -
  from handleSubmit_cases [OF assms] show ?thesis
  proof
    assume "d' = d \<and> (res = Returned_early \<or> (\<exists>e. res = Submit_failed e))"
    then show ?thesis by simp
  next
    assume "\<exists>me la lo. user = Some me \<and> auth_uid = Some me \<and>
            latitude location = Some la \<and> la \<noteq> 0 \<and> longitude location = Some lo \<and> lo \<noteq> 0 \<and>
            new_id \<notin> set (map r_id (reports d)) \<and> \<not> report_insert_fails fl"
    then obtain me la lo where h: "user = Some me" "auth_uid = Some me"
      "latitude location = Some la" "la \<noteq> 0" "longitude location = Some lo" "lo \<noteq> 0"
      "new_id \<notin> set (map r_id (reports d))" "\<not> report_insert_fails fl"
      by blast
    let ?rep = "\<lparr>r_id = new_id, r_user_id = me, r_category = ''vehicle'',
                   r_vehicle_no = vehicleNo fd, r_description = Some (description fd),
                   r_photo_url = photoUrl, r_lat = la, r_lon = lo,
                   r_location = ST_MakePoint lo la, r_radius_m = r,
                   r_expiry_at = now + hours 2, r_status = ''pending'',
                   r_created_at = now, r_updated_at = now\<rparr>"
    let ?new = "delivered me fd new_id fl (get_users_in_range (Some me) la lo r (profiles d))"
    from handleSubmit_committed [OF h, of fd r photoUrl now] assms
    have out: "res = Report_saved_alerts (Some (length ?new))"
      "d' = d\<lparr>reports := reports d @ [?rep],
                notification_alerts := notification_alerts d @ ?new\<rparr>"
      by (simp_all add: Let_def)
    show ?thesis
      by (rule disjI2, rule exI [of _ me], rule exI [of _ la], rule exI [of _ lo],
          rule exI [of _ ?rep], rule exI [of _ ?new]) (use h out in simp)
  qed
qed

text \<open>
  The rows delivered: their fields, and how they follow the answer of the range query.
\<close>

lemma delivered_fields:
  assumes "x \<in> set (delivered me fd rid fl answer)"
  shows "a_report_id x = rid" and "a_sender_user_id x = me"
    and "a_message x = alert_message fd"
    and "\<exists>rows u. answer = Inr rows \<and> u \<in> set rows \<and> a_recipient_user_id x = user_id u"
  using assms
  by (auto simp: delivered_def make_alerts_def alert_row_def split: if_splits sum.splits)

lemma delivered_empty:
  "range_query_fails fl \<or> alert_insert_fails fl \<or> (\<exists>e. answer = Inl e) \<Longrightarrow>
     delivered me fd rid fl answer = []"
  by (auto simp: delivered_def)

lemma delivered_rows:
  assumes "\<not> range_query_fails fl" and "\<not> alert_insert_fails fl" and "answer = Inr rows"
  shows "map a_recipient_user_id (delivered me fd rid fl answer) = map user_id rows"
    and "map a_distance_meters (delivered me fd rid fl answer) = map distance_meters rows"
    and "map alert_key (delivered me fd rid fl answer) = map (\<lambda>u. (rid, user_id u)) rows"
  using assms
  by (simp_all add: delivered_def make_alerts_def alert_row_def alert_key_def)

lemma distinct_pairs: "distinct (map f xs) \<Longrightarrow> distinct (map (\<lambda>x. (k, f x)) xs)"
  by (induction xs) auto

lemma delivered_distinct:
  assumes "answer = get_users_in_range auth_uid a b r ps" and "distinct (map p_user_id ps)"
  shows "distinct (map alert_key (delivered me fd rid fl answer))"
proof (cases "range_query_fails fl \<or> alert_insert_fails fl \<or> (\<exists>e. answer = Inl e)")
  case True
  then show ?thesis by (simp add: delivered_empty)
next
  case False
  then obtain rows where rows: "answer = Inr rows"
    by (cases answer) auto
  from False have nf: "\<not> range_query_fails fl" "\<not> alert_insert_fails fl" by simp_all
  have "distinct (map user_id rows)"
    using assms rows by (intro range_rows_distinct [of auth_uid a b r ps]) simp_all
  then show ?thesis
    unfolding delivered_rows(3) [OF nf rows] by (rule distinct_pairs)
qed

text \<open>The submission of the example, under any faults of the fan-out.\<close>

lemma db2_inputs:
  "latitude here0 = Some (129 / 10)" "(129 / 10 :: real) \<noteq> 0"
  "longitude here0 = Some (776 / 10)" "(776 / 10 :: real) \<noteq> 0"
  "''report-1'' \<notin> set (map r_id (reports db2))"
  by (simp_all add: here0_def db2_def db0_def)

lemma db2_empty: "reports db2 = []" "notification_alerts db2 = []"
  by (simp_all add: db2_def db0_def)

lemma run_db2:
  assumes "\<not> report_insert_fails fl"
  shows "handleSubmit (Some ''user-a'') (Some ''user-a'') here0 fd0 1000 None 0 ''report-1'' fl db2 =
     (if range_query_fails fl \<or> alert_insert_fails fl
      then (Report_saved_alerts (Some 0), db2\<lparr>reports := [rep1]\<rparr>)
      else (Report_saved_alerts (Some 1), db3))"
proof -
  note run = handleSubmit_committed [OF refl refl db2_inputs assms,
      where me = "''user-a''" and fd = fd0 and r = 1000 and photoUrl = None and now = 0]
  have rows: "delivered ''user-a'' fd0 ''report-1'' fl
      (Inr [\<lparr>user_id = ''user-b'', distance_meters = 0, fcm_token = Some ''token-b''\<rparr>]) =
      (if range_query_fails fl \<or> alert_insert_fails fl then [] else [alert_b])"
    by (simp add: delivered_def make_alerts_def alert_row_def alert_message_def
        default_message_def fd0_def alert_b_def)
  have rep: "\<lparr>r_id = ''report-1'', r_user_id = ''user-a'', r_category = ''vehicle'',
      r_vehicle_no = vehicleNo fd0, r_description = Some (description fd0),
      r_photo_url = None, r_lat = 129 / 10, r_lon = 776 / 10,
      r_location = ST_MakePoint (776 / 10) (129 / 10), r_radius_m = 1000,
      r_expiry_at = 0 + hours 2, r_status = ''pending'', r_created_at = 0,
      r_updated_at = 0\<rparr> = rep1"
    by (simp add: rep1_def fd0_def)
  show ?thesis
    unfolding run range_db2 rows rep Let_def db2_empty
    by (simp add: db3_def db2_empty)
qed

lemma db2_invariants: "profiles_unique db2" "alerts_unique db2" "alerts_reference_reports db2"
  by (simp_all add: profiles_unique_def alerts_unique_def alerts_reference_reports_def
      db2_def db0_def profile_a_def profile_b_def profile_c_def)

section \<open>C2: the alerts of a report\<close>

text \<open>
  C2. Let the profiles have distinct user ids, let no two stored alerts share report and
  recipient, and let every stored alert name a stored report. After \<open>handleSubmit\<close>, no
  two stored alerts share report and recipient, and the other two properties still hold.
  Either no report was saved and the store is as it was, or the report is stored under
  the new key with the reporting user as its owner, and the alerts added come last, as
  one batch whose length is the number reported. Each of them names the new report, has
  the owner as its sender, and carries the custom message or, when that is empty, the
  text "THEFT ALERT: " after the siren sign, then the vehicle number, then " stolen near
  your location. Check the live map for details.". The batch is empty when the range
  query or the batch insert failed; otherwise, for the rows the range query at the
  reporter's position and radius returned, the recipients are the returned users and
  the distances the returned distances, one alert for each row and in their order.
\<close>

theorem fanout_alerts:
  assumes "profiles_unique d" and "alerts_unique d" and "alerts_reference_reports d"
    and "handleSubmit user auth_uid location fd r photoUrl now new_id fl d = (res, d')"
  shows "distinct (map (\<lambda>a. (a_report_id a, a_recipient_user_id a)) (notification_alerts d')) \<and>
         alerts_unique d' \<and> alerts_reference_reports d' \<and> profiles_unique d' \<and>
         ((d' = d \<and> (res = Returned_early \<or> (\<exists>e. res = Submit_failed e))) \<or>
          (\<exists>me la lo rep new.
             user = Some me \<and> latitude location = Some la \<and> longitude location = Some lo \<and>
             reports d' = reports d @ [rep] \<and> r_id rep = new_id \<and> r_user_id rep = me \<and>
             notification_alerts d' = notification_alerts d @ new \<and>
             res = Report_saved_alerts (Some (length new)) \<and>
             (\<forall>a\<in>set new.
                a_report_id a = new_id \<and> a_sender_user_id a = me \<and>
                a_message a =
                  (if message fd = []
                   then [CHR 0xF0, CHR 0x9F, CHR 0x9A, CHR 0xA8] @ '' THEFT ALERT: '' @
                        vehicleNo fd @
                        '' stolen near your location. Check the live map for details.''
                   else message fd)) \<and>
             (range_query_fails fl \<or> alert_insert_fails fl \<or>
              (\<exists>e. get_users_in_range auth_uid la lo r (profiles d) = Inl e) \<longrightarrow> new = []) \<and>
             (\<forall>rows. \<not> range_query_fails fl \<and> \<not> alert_insert_fails fl \<and>
                     get_users_in_range auth_uid la lo r (profiles d) = Inr rows \<longrightarrow>
                map a_recipient_user_id new = map user_id rows \<and>
                map a_distance_meters new = map distance_meters rows)))"
proof -
  have key: "alert_key = (\<lambda>a. (a_report_id a, a_recipient_user_id a))"
    by (auto simp: alert_key_def)
  from handleSubmit_alerts [OF assms(4)] show ?thesis
  proof
    assume same: "d' = d \<and> (res = Returned_early \<or> (\<exists>e. res = Submit_failed e))"
    then have "d' = d" by simp
    with assms(1-3) same show ?thesis
      by (simp add: alerts_unique_def key)
  next
    assume "\<exists>me la lo rep new.
            user = Some me \<and> auth_uid = Some me \<and>
            latitude location = Some la \<and> longitude location = Some lo \<and>
            new_id \<notin> set (map r_id (reports d)) \<and>
            r_id rep = new_id \<and> r_user_id rep = me \<and>
            res = Report_saved_alerts (Some (length new)) \<and>
            d' = d\<lparr>reports := reports d @ [rep],
                   notification_alerts := notification_alerts d @ new\<rparr> \<and>
            new = delivered me fd new_id fl
                    (get_users_in_range (Some me) la lo r (profiles d))"
    then obtain me la lo rep new where h: "user = Some me" "auth_uid = Some me"
      "latitude location = Some la" "longitude location = Some lo"
      "new_id \<notin> set (map r_id (reports d))" "r_id rep = new_id" "r_user_id rep = me"
      and res: "res = Report_saved_alerts (Some (length new))"
      and d': "d' = d\<lparr>reports := reports d @ [rep],
                      notification_alerts := notification_alerts d @ new\<rparr>"
      and new: "new = delivered me fd new_id fl
                        (get_users_in_range auth_uid la lo r (profiles d))"
      by blast
    have new_keys: "distinct (map alert_key new)"
      unfolding new using assms(1)
      by (intro delivered_distinct [of _ auth_uid la lo r "profiles d"])
        (simp_all add: profiles_unique_def)
    have new_rid: "\<forall>a\<in>set new. a_report_id a = new_id"
      unfolding new by (auto dest: delivered_fields(1))
    have old_rid: "\<forall>a\<in>set (notification_alerts d). a_report_id a \<noteq> new_id"
      using assms(3) h(5) by (auto simp: alerts_reference_reports_def list_all_iff)
    have disj: "set (map alert_key (notification_alerts d)) \<inter> set (map alert_key new) = {}"
      using new_rid old_rid by (auto simp: alert_key_def)
    have uniq: "alerts_unique d'"
      using assms(2) new_keys disj by (simp add: alerts_unique_def d')
    have refs: "alerts_reference_reports d'"
      using assms(3) new_rid h(6)
      by (auto simp: alerts_reference_reports_def list_all_iff d')
    have prof: "profiles_unique d'"
      using assms(1) by (simp add: profiles_unique_def d')
    have fields: "\<forall>a\<in>set new.
                a_report_id a = new_id \<and> a_sender_user_id a = me \<and>
                a_message a =
                  (if message fd = []
                   then [CHR 0xF0, CHR 0x9F, CHR 0x9A, CHR 0xA8] @ '' THEFT ALERT: '' @
                        vehicleNo fd @
                        '' stolen near your location. Check the live map for details.''
                   else message fd)"
      unfolding new
      by (auto dest: delivered_fields(1-3) simp: alert_message_def default_message_def)
    have empty: "range_query_fails fl \<or> alert_insert_fails fl \<or>
              (\<exists>e. get_users_in_range auth_uid la lo r (profiles d) = Inl e) \<longrightarrow> new = []"
      unfolding new by (auto intro: delivered_empty)
    have rows: "\<forall>rows. \<not> range_query_fails fl \<and> \<not> alert_insert_fails fl \<and>
                     get_users_in_range auth_uid la lo r (profiles d) = Inr rows \<longrightarrow>
                map a_recipient_user_id new = map user_id rows \<and>
                map a_distance_meters new = map distance_meters rows"
      unfolding new by (auto simp: delivered_rows(1,2))
    have rep: "reports d' = reports d @ [rep]"
      and app: "notification_alerts d' = notification_alerts d @ new"
      by (simp_all add: d')
    have shape: "\<exists>me la lo rep new.
             user = Some me \<and> latitude location = Some la \<and> longitude location = Some lo \<and>
             reports d' = reports d @ [rep] \<and> r_id rep = new_id \<and> r_user_id rep = me \<and>
             notification_alerts d' = notification_alerts d @ new \<and>
             res = Report_saved_alerts (Some (length new)) \<and>
             (\<forall>a\<in>set new.
                a_report_id a = new_id \<and> a_sender_user_id a = me \<and>
                a_message a =
                  (if message fd = []
                   then [CHR 0xF0, CHR 0x9F, CHR 0x9A, CHR 0xA8] @ '' THEFT ALERT: '' @
                        vehicleNo fd @
                        '' stolen near your location. Check the live map for details.''
                   else message fd)) \<and>
             (range_query_fails fl \<or> alert_insert_fails fl \<or>
              (\<exists>e. get_users_in_range auth_uid la lo r (profiles d) = Inl e) \<longrightarrow> new = []) \<and>
             (\<forall>rows. \<not> range_query_fails fl \<and> \<not> alert_insert_fails fl \<and>
                     get_users_in_range auth_uid la lo r (profiles d) = Inr rows \<longrightarrow>
                map a_recipient_user_id new = map user_id rows \<and>
                map a_distance_meters new = map distance_meters rows)"
      by (rule exI [of _ me], rule exI [of _ la], rule exI [of _ lo], rule exI [of _ rep],
          rule exI [of _ new])
        (use h(1,3,4,6,7) rep app res fields empty rows in blast)
    from uniq refs prof shape show ?thesis
      unfolding alerts_unique_def key by blast
  qed
qed

text \<open>
  The reporter's submission: one alert, for the neighbour, with the default text for the
  vehicle number KA01AB1234.
\<close>

theorem fanout_alerts_witness:
  "profiles_unique db2 \<and> alerts_unique db2 \<and> alerts_reference_reports db2 \<and>
   handleSubmit (Some ''user-a'') (Some ''user-a'') here0 fd0 1000 None 0 ''report-1'' no_faults db2 =
     (Report_saved_alerts (Some 1), db3) \<and>
   get_users_in_range (Some ''user-a'') (129 / 10) (776 / 10) 1000 (profiles db2) =
     Inr [\<lparr>user_id = ''user-b'', distance_meters = 0, fcm_token = Some ''token-b''\<rparr>] \<and>
   notification_alerts db3 =
     [\<lparr>a_report_id = ''report-1'', a_recipient_user_id = ''user-b'',
       a_sender_user_id = ''user-a'',
       a_message =
         [CHR 0xF0, CHR 0x9F, CHR 0x9A, CHR 0xA8] @
         '' THEFT ALERT: KA01AB1234 stolen near your location. Check the live map for details.'',
       a_alert_type = ''theft_alert'', a_distance_meters = 0, a_status = ''sent''\<rparr>] \<and>
   distinct (map (\<lambda>a. (a_report_id a, a_recipient_user_id a)) (notification_alerts db3)) \<and>
   alerts_unique db3 \<and> alerts_reference_reports db3"
proof -
  have run: "handleSubmit (Some ''user-a'') (Some ''user-a'') here0 fd0 1000 None 0 ''report-1''
      no_faults db2 = (Report_saved_alerts (Some 1), db3)"
    by (simp add: run_db2 no_faults_def)
  from fanout_alerts [OF db2_invariants run] db2_invariants run range_db2
  show ?thesis by (simp add: db3_def alert_b_def)
qed

section \<open>C3: the reporter is not a recipient\<close>

text \<open>
  C3. Whenever \<open>get_users_in_range\<close> returns rows, there are none for a caller who is not
  signed in, and no row is the caller's. Every alert that \<open>handleSubmit\<close> adds names the
  new report, has the reporting user as its sender, and has a recipient who is neither
  the reporting user nor the caller.
\<close>

theorem reporter_excluded:
  "(\<forall>rows. get_users_in_range auth_uid a b r ps = Inr rows \<longrightarrow>
            (auth_uid = None \<longrightarrow> rows = []) \<and>
            (\<forall>u\<in>set rows. Some (user_id u) \<noteq> auth_uid)) \<and>
   (handleSubmit user auth_uid location fd r photoUrl now new_id fl d = (res, d') \<longrightarrow>
      (\<exists>new. notification_alerts d' = notification_alerts d @ new \<and>
         (\<forall>x\<in>set new. a_report_id x = new_id \<and> Some (a_sender_user_id x) = user \<and>
                       Some (a_recipient_user_id x) \<noteq> user \<and>
                       Some (a_recipient_user_id x) \<noteq> auth_uid)))"
proof (intro conjI impI allI)
  fix rows
  assume ret: "get_users_in_range auth_uid a b r ps = Inr rows"
  have each: "auth_uid \<noteq> None \<and> Some (user_id u) \<noteq> auth_uid" if "u \<in> set rows" for u
    using range_rows_from_profiles [OF ret that] by auto
  show "rows = []" if "auth_uid = None"
  proof (cases rows)
    case Nil
    then show ?thesis .
  next
    case (Cons u us)
    then have "u \<in> set rows" by simp
    from each [OF this] that show ?thesis by simp
  qed
  show "\<forall>u\<in>set rows. Some (user_id u) \<noteq> auth_uid"
    using each by blast
next
  assume run: "handleSubmit user auth_uid location fd r photoUrl now new_id fl d = (res, d')"
  from handleSubmit_alerts [OF run]
  show "\<exists>new. notification_alerts d' = notification_alerts d @ new \<and>
         (\<forall>x\<in>set new. a_report_id x = new_id \<and> Some (a_sender_user_id x) = user \<and>
                       Some (a_recipient_user_id x) \<noteq> user \<and>
                       Some (a_recipient_user_id x) \<noteq> auth_uid)"
  proof
    assume "d' = d \<and> (res = Returned_early \<or> (\<exists>e. res = Submit_failed e))"
    then show ?thesis by (intro exI [of _ "[]"]) simp
  next
    assume "\<exists>me la lo rep new.
            user = Some me \<and> auth_uid = Some me \<and>
            latitude location = Some la \<and> longitude location = Some lo \<and>
            new_id \<notin> set (map r_id (reports d)) \<and>
            r_id rep = new_id \<and> r_user_id rep = me \<and>
            res = Report_saved_alerts (Some (length new)) \<and>
            d' = d\<lparr>reports := reports d @ [rep],
                   notification_alerts := notification_alerts d @ new\<rparr> \<and>
            new = delivered me fd new_id fl
                    (get_users_in_range (Some me) la lo r (profiles d))"
    then obtain me la lo rep new where h: "user = Some me" "auth_uid = Some me"
      and d': "d' = d\<lparr>reports := reports d @ [rep],
                      notification_alerts := notification_alerts d @ new\<rparr>"
      and new: "new = delivered me fd new_id fl
                        (get_users_in_range (Some me) la lo r (profiles d))"
      by blast
    have "a_report_id x = new_id \<and> a_sender_user_id x = me \<and> a_recipient_user_id x \<noteq> me"
      if x: "x \<in> set new" for x
    proof -
      from x have mem: "x \<in> set (delivered me fd new_id fl
          (get_users_in_range (Some me) la lo r (profiles d)))"
        by (simp add: new)
      from delivered_fields(4) [OF mem] obtain rows u where
        ret: "get_users_in_range (Some me) la lo r (profiles d) = Inr rows"
        and u: "u \<in> set rows" "a_recipient_user_id x = user_id u"
        by blast
      from range_rows_from_profiles [OF ret u(1)] u(2)
      have "a_recipient_user_id x \<noteq> me" by auto
      with delivered_fields(1,2) [OF mem] show ?thesis by simp
    qed
    then show ?thesis
      by (intro exI [of _ new]) (simp add: d' h)
  qed
qed

text \<open>
  The reporter has a stored location at the centre and is within the radius, yet is
  neither in the result of the query nor a recipient.
\<close>

theorem reporter_excluded_witness:
  "get_users_in_range (Some ''user-a'') (129 / 10) (776 / 10) 1000 (profiles db2) =
     Inr [\<lparr>user_id = ''user-b'', distance_meters = 0, fcm_token = Some ''token-b''\<rparr>] \<and>
   profile_a \<in> set (profiles db2) \<and> p_user_id profile_a = ''user-a'' \<and>
   handleSubmit (Some ''user-a'') (Some ''user-a'') here0 fd0 1000 None 0 ''report-1'' no_faults db2 =
     (Report_saved_alerts (Some 1), db3) \<and>
   ''user-a'' \<notin> a_recipient_user_id ` set (notification_alerts db3)"
proof -
  have run: "handleSubmit (Some ''user-a'') (Some ''user-a'') here0 fd0 1000 None 0 ''report-1''
      no_faults db2 = (Report_saved_alerts (Some 1), db3)"
    by (simp add: run_db2 no_faults_def)
  from reporter_excluded [of "Some ''user-a''" "129 / 10" "776 / 10" 1000 "profiles db2"
      "Some ''user-a''" here0 fd0 None 0 "''report-1''" no_faults db2
      "Report_saved_alerts (Some 1)" db3] run range_db2
  show ?thesis
    by (simp add: db3_def db2_def db0_def alert_b_def profile_a_def)
qed

section \<open>C7: a failed fan-out keeps the report\<close>

text \<open>
  C7. When the signed-in user submits the dialog at a non-zero position, the key is
  fresh and the insert of the report does not fail, \<open>handleSubmit\<close> reports the saved
  report with a number \<open>n\<close>, whatever happens in the fan-out: the report is stored, the
  alerts added are \<open>n\<close> in number, and \<open>n\<close> is 0 when the range query fails, by a fault of
  the call or by an error of its own, when the batch insert fails, and when the range
  query returns nobody; when neither fails, \<open>n\<close> is the number of the rows that the range
  query returns. The batch is inserted whole or not at all, so no other number arises.
\<close>

theorem fanout_failure_keeps_report:
  assumes "user = Some me" and "auth_uid = Some me"
    and "latitude location = Some la" and "la \<noteq> 0"
    and "longitude location = Some lo" and "lo \<noteq> 0"
    and "new_id \<notin> set (map r_id (reports d))" and "\<not> report_insert_fails fl"
  shows "\<exists>n rep new d'.
           handleSubmit user auth_uid location fd r photoUrl now new_id fl d =
             (Report_saved_alerts (Some n), d') \<and>
           reports d' = reports d @ [rep] \<and> r_id rep = new_id \<and> r_user_id rep = me \<and>
           notification_alerts d' = notification_alerts d @ new \<and> n = length new \<and>
           (range_query_fails fl \<or> alert_insert_fails fl \<longrightarrow> n = 0) \<and>
           (\<forall>e. get_users_in_range auth_uid la lo r (profiles d) = Inl e \<longrightarrow> n = 0) \<and>
           (get_users_in_range auth_uid la lo r (profiles d) = Inr [] \<longrightarrow> n = 0) \<and>
           (\<forall>rows. \<not> range_query_fails fl \<and> \<not> alert_insert_fails fl \<and>
                   get_users_in_range auth_uid la lo r (profiles d) = Inr rows \<longrightarrow>
              n = length rows)"
proof -
  let ?rep = "\<lparr>r_id = new_id, r_user_id = me, r_category = ''vehicle'',
                 r_vehicle_no = vehicleNo fd, r_description = Some (description fd),
                 r_photo_url = photoUrl, r_lat = la, r_lon = lo,
                 r_location = ST_MakePoint lo la, r_radius_m = r,
                 r_expiry_at = now + hours 2, r_status = ''pending'',
                 r_created_at = now, r_updated_at = now\<rparr>"
  let ?q = "get_users_in_range auth_uid la lo r (profiles d)"
  let ?new = "delivered me fd new_id fl ?q"
  let ?d' = "d\<lparr>reports := reports d @ [?rep],
               notification_alerts := notification_alerts d @ ?new\<rparr>"
  have run: "handleSubmit user auth_uid location fd r photoUrl now new_id fl d =
               (Report_saved_alerts (Some (length ?new)), ?d')"
    using handleSubmit_committed [OF assms, of fd r photoUrl now]
    by (simp add: Let_def assms(2))
  have fault: "range_query_fails fl \<or> alert_insert_fails fl \<longrightarrow> length ?new = 0"
    by (auto simp: delivered_empty)
  have err: "\<forall>e. ?q = Inl e \<longrightarrow> length ?new = 0"
    by (auto simp: delivered_empty)
  have rows: "\<forall>rows. \<not> range_query_fails fl \<and> \<not> alert_insert_fails fl \<and> ?q = Inr rows \<longrightarrow>
      length ?new = length rows"
  proof (intro allI impI)
    fix rows
    assume "\<not> range_query_fails fl \<and> \<not> alert_insert_fails fl \<and> ?q = Inr rows"
    then have "map a_recipient_user_id ?new = map user_id rows"
      by (intro delivered_rows(1)) simp_all
    then have "length (map a_recipient_user_id ?new) = length (map user_id rows)"
      by (rule arg_cong)
    then show "length ?new = length rows" by simp
  qed
  have none: "?q = Inr [] \<longrightarrow> length ?new = 0"
    by (auto simp: delivered_def make_alerts_def)
  show ?thesis
    by (rule exI [of _ "length ?new"], rule exI [of _ ?rep], rule exI [of _ ?new],
        rule exI [of _ ?d'])
      (use run fault err rows none in simp)
qed

text \<open>The submission of the example with a failing query, a failing batch, and neither.\<close>

theorem fanout_failure_keeps_report_witness:
  "handleSubmit (Some ''user-a'') (Some ''user-a'') here0 fd0 1000 None 0 ''report-1''
     (no_faults\<lparr>range_query_fails := True\<rparr>) db2 =
     (Report_saved_alerts (Some 0), db2\<lparr>reports := [rep1]\<rparr>) \<and>
   handleSubmit (Some ''user-a'') (Some ''user-a'') here0 fd0 1000 None 0 ''report-1''
     (no_faults\<lparr>alert_insert_fails := True\<rparr>) db2 =
     (Report_saved_alerts (Some 0), db2\<lparr>reports := [rep1]\<rparr>) \<and>
   handleSubmit (Some ''user-a'') (Some ''user-a'') here0 fd0 1000 None 0 ''report-1''
     no_faults db2 = (Report_saved_alerts (Some 1), db3) \<and>
   reports db3 = reports db2 @ [rep1]"
proof -
  have f: "\<not> report_insert_fails (no_faults\<lparr>range_query_fails := True\<rparr>)"
    by (simp add: no_faults_def)
  from fanout_failure_keeps_report [OF refl refl db2_inputs f,
      where me = "''user-a''" and fd = fd0 and r = 1000 and photoUrl = None and now = 0]
  show ?thesis
    by (simp add: run_db2 no_faults_def db3_def db2_empty)
qed

section \<open>C9: submissions that are refused, and one that is not\<close>

text \<open>
  C9, as the code has it. The theft report form, submitted with a radius below 500 or
  above 5000 or with an empty vehicle number, ends with the validation failure and the
  store as it was: \<open>onSubmit\<close> is not run. An insert into \<open>reports\<close> by a caller who is
  not the \<open>user_id\<close> of the row ends with the violation of the policy "Users can create
  their own reports" and adds no row; so does the form, with valid data, when the
  session the store sees is not that of the form's user. Nothing is said of the radius
  or the vehicle number of a submission that does not pass through the form's schema.
\<close>

theorem submission_rejected:
  "(f_radius data < 500 \<or> 5000 < f_radius data \<or> f_vehicleNo data = [] \<longrightarrow>
      form_handleSubmit user auth_uid location photoUrl client_now now new_id fl data d =
        (Validation_failed, d)) \<and>
   (auth_uid \<noteq> i_user_id ins \<longrightarrow> insert_report auth_uid now new_id ins d = Inl Rls_violation) \<and>
   (reportSchema data \<and> user \<noteq> None \<and> \<not> falsy (latitude location) \<and>
    \<not> falsy (longitude location) \<and> \<not> report_insert_fails fl \<and> auth_uid \<noteq> user \<longrightarrow>
      form_handleSubmit user auth_uid location photoUrl client_now now new_id fl data d =
        (Submit_failed Rls_violation, d))"
  by (auto simp: form_handleSubmit_def reportSchema_def onSubmit_def insert_report_def)

text \<open>
  Radius 499, radius 5001, no vehicle number, a foreign caller; the same form with valid
  data and its own caller is saved.
\<close>

theorem submission_rejected_witness:
  "form_handleSubmit (Some ''user-a'') (Some ''user-a'') here0 None 0 0 ''report-1'' no_faults
     (form0\<lparr>f_radius := 499\<rparr>) db0 = (Validation_failed, db0) \<and>
   form_handleSubmit (Some ''user-a'') (Some ''user-a'') here0 None 0 0 ''report-1'' no_faults
     (form0\<lparr>f_radius := 5001\<rparr>) db0 = (Validation_failed, db0) \<and>
   form_handleSubmit (Some ''user-a'') (Some ''user-a'') here0 None 0 0 ''report-1'' no_faults
     (form0\<lparr>f_vehicleNo := []\<rparr>) db0 = (Validation_failed, db0) \<and>
   insert_report (Some ''user-b'') 0 ''report-1'' ins0 db0 = Inl Rls_violation \<and>
   form_handleSubmit (Some ''user-a'') (Some ''user-b'') here0 None 0 0 ''report-1'' no_faults
     form0 db0 = (Submit_failed Rls_violation, db0) \<and>
   fst (form_handleSubmit (Some ''user-a'') (Some ''user-a'') here0 None 0 0 ''report-1'' no_faults
     form0 db0) = Report_saved"
proof -
  have ok: "fst (form_handleSubmit (Some ''user-a'') (Some ''user-a'') here0 None 0 0 ''report-1''
     no_faults form0 db0) = Report_saved"
    by (simp add: form_handleSubmit_def reportSchema_def onSubmit_def insert_report_def Let_def
        here0_def form0_def db0_def no_faults_def falsy_def default_of_def status_check_def)
  have valid: "reportSchema form0"
    by (simp add: reportSchema_def form0_def)
  from submission_rejected [of "form0\<lparr>f_radius := 499\<rparr>" "Some ''user-a''" "Some ''user-a''"
      here0 None 0 0 "''report-1''" no_faults db0 ins0]
    submission_rejected [of "form0\<lparr>f_radius := 5001\<rparr>" "Some ''user-a''" "Some ''user-a''"
      here0 None 0 0 "''report-1''" no_faults db0 ins0]
    submission_rejected [of "form0\<lparr>f_vehicleNo := []\<rparr>" "Some ''user-a''" "Some ''user-a''"
      here0 None 0 0 "''report-1''" no_faults db0 ins0]
    submission_rejected [of form0 "Some ''user-a''" "Some ''user-b''"
      here0 None 0 0 "''report-1''" no_faults db0 ins0]
  show ?thesis
    using ok valid
    by (simp add: form0_def ins0_def here0_def no_faults_def falsy_def)
qed

text \<open>
  C9 as the specification words it speaks of every report submission. The table has no
  check on \<open>radius_m\<close> and takes the empty string as a vehicle number, and the dialog's
  \<open>handleSubmit\<close> tests neither: with the radius 10 and no vehicle number it saves the
  report, as the insert of the same row does.
\<close>

theorem submission_unchecked_counterexample:
  "handleSubmit (Some ''user-a'') (Some ''user-a'') here0
     \<lparr>vehicleNo = [], description = [], message = []\<rparr> 10 None 0 ''report-1'' no_faults db0 =
     (Report_saved_alerts (Some 0), db0\<lparr>reports := [rep_unchecked]\<rparr>) \<and>
   insert_report (Some ''user-a'') 0 ''report-1'' ins_unchecked db0 =
     Inr (rep_unchecked, db0\<lparr>reports := [rep_unchecked]\<rparr>) \<and>
   r_radius_m rep_unchecked = 10 \<and> r_vehicle_no rep_unchecked = []"
proof -
  have inputs: "latitude here0 = Some (129 / 10)" "(129 / 10 :: real) \<noteq> 0"
    "longitude here0 = Some (776 / 10)" "(776 / 10 :: real) \<noteq> 0"
    "''report-1'' \<notin> set (map r_id (reports db0))" "\<not> report_insert_fails no_faults"
    by (simp_all add: here0_def db0_def no_faults_def)
  have "handleSubmit (Some ''user-a'') (Some ''user-a'') here0
     \<lparr>vehicleNo = [], description = [], message = []\<rparr> 10 None 0 ''report-1'' no_faults db0 =
     (Report_saved_alerts (Some 0), db0\<lparr>reports := [rep_unchecked]\<rparr>)"
    unfolding handleSubmit_committed [OF refl refl inputs, where me = "''user-a''"]
    by (simp add: Let_def delivered_def make_alerts_def db0_def rep_unchecked_def)
  moreover have "insert_report (Some ''user-a'') 0 ''report-1'' ins_unchecked db0 =
     Inr (rep_unchecked, db0\<lparr>reports := [rep_unchecked]\<rparr>)"
    by (simp add: insert_report_def Let_def ins_unchecked_def rep_unchecked_def db0_def
        default_of_def status_check_def)
  ultimately show ?thesis
    by (simp add: rep_unchecked_def)
qed

end
